theory Spec2Isabelle
  imports Main "HOL-Library.Word"
begin

unbundle bit_operations_syntax

section \<open>Data model of server/certificate.go\<close>

text \<open>
  The file bootstraps a certificate authority: it loads a certificate and an RSA key
  from two files, or generates, signs and stores a fresh pair. Everything it does goes
  through the operating system (files, directories, clock, random source) and through
  Go's crypto libraries. The operating system is an explicit \<open>world\<close> that every
  operation takes and returns; the behaviour of the libraries and the faults of the
  operating system are the fields of an \<open>env\<close>, so that every theorem holds for
  whatever they do.
\<close>

type_synonym bytes = "8 word list"

text \<open>An instant, in nanoseconds since the Unix epoch (\<open>time.Time\<close>).\<close>

type_synonym time = int

datatype errno = ENOENT | EEXIST | EACCES | ENOTDIR | EISDIR | ENOSPC | EIO

text \<open>
  Go's \<open>error\<close> values: \<open>PathError op path errno\<close> is the \<open>*fs.PathError\<close> of package
  \<open>os\<close>; \<open>Errorf msg\<close> is the value made by \<open>fmt.Errorf\<close>; the others are
  the errors of the library named.
\<close>

datatype error =
    PathError string string errno
  | EnvError string
  | X509Error string
  | RSAError string
  | HashError string
  | Errorf string

text \<open>\<open>errors.Is(err, os.ErrNotExist)\<close>\<close>

fun errors_Is_ErrNotExist :: "error \<Rightarrow> bool" where
  "errors_Is_ErrNotExist (PathError _ _ ENOENT) = True"
| "errors_Is_ErrNotExist _ = False"

record pkix_Name =
  CommonName :: string
  Organization :: "string list"

record rsa_PublicKey =
  rsaN :: nat
  rsaE :: int

record rsa_PrivateKey =
  Public :: rsa_PublicKey
  rsaD :: nat
  Primes :: "nat list"

text \<open>
  \<open>crypto.PublicKey\<close> and the \<open>any\<close> that \<open>x509.ParsePKCS8PrivateKey\<close> returns
  (an RSA, ECDSA, Ed25519 or ECDH key).
\<close>

datatype public_key = RSAPublicKey rsa_PublicKey | OtherPublicKey bytes

datatype private_key =
    RSAPrivateKey rsa_PrivateKey
  | ECDSAPrivateKey bytes
  | Ed25519PrivateKey bytes
  | ECDHPrivateKey bytes

text \<open>\<open>x509.KeyUsage\<close> is a bit mask; the constants are those of crypto/x509.\<close>

type_synonym KeyUsage = int

definition KeyUsageDigitalSignature :: KeyUsage where "KeyUsageDigitalSignature = 1"
definition KeyUsageContentCommitment :: KeyUsage where "KeyUsageContentCommitment = 2"
definition KeyUsageKeyEncipherment :: KeyUsage where "KeyUsageKeyEncipherment = 4"
definition KeyUsageDataEncipherment :: KeyUsage where "KeyUsageDataEncipherment = 8"
definition KeyUsageKeyAgreement :: KeyUsage where "KeyUsageKeyAgreement = 16"
definition KeyUsageCertSign :: KeyUsage where "KeyUsageCertSign = 32"
definition KeyUsageCRLSign :: KeyUsage where "KeyUsageCRLSign = 64"
definition KeyUsageEncipherOnly :: KeyUsage where "KeyUsageEncipherOnly = 128"
definition KeyUsageDecipherOnly :: KeyUsage where "KeyUsageDecipherOnly = 256"

definition allKeyUsages :: "KeyUsage list" where
  "allKeyUsages =
     [KeyUsageDigitalSignature, KeyUsageContentCommitment, KeyUsageKeyEncipherment,
      KeyUsageDataEncipherment, KeyUsageKeyAgreement, KeyUsageCertSign, KeyUsageCRLSign,
      KeyUsageEncipherOnly, KeyUsageDecipherOnly]"

text \<open>The usages a mask contains, \<open>mask & u != 0\<close>.\<close>

definition usages :: "KeyUsage \<Rightarrow> KeyUsage list" where
  "usages k = filter (\<lambda>u. k AND u \<noteq> 0) allKeyUsages"

datatype ExtKeyUsage =
    ExtKeyUsageAny
  | ExtKeyUsageServerAuth
  | ExtKeyUsageClientAuth
  | ExtKeyUsageCodeSigning
  | ExtKeyUsageEmailProtection
  | ExtKeyUsageTimeStamping
  | ExtKeyUsageOCSPSigning

text \<open>
  The fields of \<open>x509.Certificate\<close> that the file sets or that a parsed certificate
  carries for them. \<open>PublicKey\<close> is \<open>None\<close> for Go's nil.
\<close>

record certificate =
  Raw :: bytes
  SerialNumber :: int
  Issuer :: pkix_Name
  Subject :: pkix_Name
  SubjectKeyId :: bytes
  KeyUsage :: KeyUsage
  ExtKeyUsage :: "ExtKeyUsage list"
  BasicConstraintsValid :: bool
  NotBefore :: time
  NotAfter :: time
  DNSNames :: "string list"
  IsCA :: bool
  PublicKey :: "public_key option"

text \<open>One call of \<open>log.Printf(format, file, err)\<close>.\<close>

datatype log_entry = Printf string string error

subsection \<open>The libraries and the operating system\<close>

text \<open>
  What the file calls and does not define. \<open>mkdir_errno\<close> and \<open>read_errno\<close> say
  for which paths the operating system refuses the operation (beyond a missing file
  and an existing directory, which the world decides); \<open>write_fault\<close> says whether
  and where writing given bytes to a path goes wrong;
  \<open>GenerateKey\<close> and \<open>CreateCertificate\<close> take the position of \<open>rand.Reader\<close>;
  \<open>clock n\<close> is the n-th reading of \<open>time.Now()\<close>.
\<close>

text \<open>
  How \<open>os.WriteFile\<close> can fail. It opens the file with \<open>O_WRONLY|O_CREATE|O_TRUNC\<close>,
  writes, and closes: the open can fail, with the file as it was; the write can fail
  after some of the bytes, with the file cut to those; the close can fail after all of
  them.
\<close>

datatype write_fault = OpenFails errno | WriteFails errno nat | CloseFails errno

record env =
  UserConfigDir :: "error + string"
  Join :: "string \<Rightarrow> string \<Rightarrow> string"
  mkdir_errno :: "string \<Rightarrow> errno option"
  read_errno :: "string \<Rightarrow> errno option"
  write_fault :: "string \<Rightarrow> bytes \<Rightarrow> write_fault option"
  ParseCertificate :: "bytes \<Rightarrow> error + certificate"
  ParsePKCS8PrivateKey :: "bytes \<Rightarrow> error + private_key"
  GenerateKey :: "nat \<Rightarrow> nat \<Rightarrow> error + rsa_PrivateKey"
  MarshalPKIXPublicKey :: "public_key \<Rightarrow> error + bytes"
  sha1_Write :: "bytes \<Rightarrow> error option"
  sha1_Sum :: "bytes \<Rightarrow> bytes"
  CreateCertificate ::
    "nat \<Rightarrow> certificate \<Rightarrow> certificate \<Rightarrow> public_key \<Rightarrow> rsa_PrivateKey \<Rightarrow> error + bytes"
  MarshalPKCS8PrivateKey :: "rsa_PrivateKey \<Rightarrow> error + bytes"
  AddDate :: "time \<Rightarrow> int \<Rightarrow> int \<Rightarrow> int \<Rightarrow> time"
  clock :: "nat \<Rightarrow> time"

text \<open>
  The state the file reads and writes: directories, file contents, the package variable
  \<open>currentSerialNumber\<close> (an \<open>int64\<close>), how much of the random source and how many
  clock readings have been used, and the log.
\<close>

record world =
  dirs :: "string set"
  files :: "string \<rightharpoonup> bytes"
  currentSerialNumber :: "64 word"
  entropy :: nat
  ticks :: nat
  logs :: "log_entry list"

definition caFile :: string where "caFile = ''ca.der''"
definition caKeyFile :: string where "caKeyFile = ''caKey.der''"

subsection \<open>Operating-system calls\<close>

text \<open>
  \<open>os.Mkdir\<close>: fails when the path exists or when the system refuses; creates the one
  directory otherwise.
\<close>

definition Mkdir :: "env \<Rightarrow> world \<Rightarrow> string \<Rightarrow> world \<times> error option" where
  "Mkdir env w p =
     (if p \<in> dirs w \<or> files w p \<noteq> None then (w, Some (PathError ''mkdir'' p EEXIST))
      else case mkdir_errno env p of
             Some n \<Rightarrow> (w, Some (PathError ''mkdir'' p n))
           | None \<Rightarrow> (w\<lparr>dirs := insert p (dirs w)\<rparr>, None))"

text \<open>\<open>os.ReadFile\<close>\<close>

definition ReadFile :: "env \<Rightarrow> world \<Rightarrow> string \<Rightarrow> error + bytes" where
  "ReadFile env w p =
     (case read_errno env p of
        Some n \<Rightarrow> Inl (PathError ''open'' p n)
      | None \<Rightarrow> (case files w p of
                   None \<Rightarrow> Inl (PathError ''open'' p ENOENT)
                 | Some b \<Rightarrow> Inr b))"

text \<open>The error that \<open>os.WriteFile\<close> returns for a fault, and the files it leaves.\<close>

fun fault_error :: "string \<Rightarrow> write_fault \<Rightarrow> error" where
  "fault_error p (OpenFails n) = PathError ''open'' p n"
| "fault_error p (WriteFails n k) = PathError ''write'' p n"
| "fault_error p (CloseFails n) = PathError ''close'' p n"

fun after_fault :: "(string \<rightharpoonup> bytes) \<Rightarrow> string \<Rightarrow> bytes \<Rightarrow> write_fault \<Rightarrow> (string \<rightharpoonup> bytes)" where
  "after_fault fs p b (OpenFails n) = fs"
| "after_fault fs p b (WriteFails n k) = fs(p \<mapsto> take k b)"
| "after_fault fs p b (CloseFails n) = fs(p \<mapsto> b)"

text \<open>\<open>os.WriteFile\<close>: replaces the content, or fails and leaves what the fault leaves.\<close>

definition WriteFile :: "env \<Rightarrow> world \<Rightarrow> string \<Rightarrow> bytes \<Rightarrow> world \<times> error option" where
  "WriteFile env w p b =
     (case write_fault env p b of
        Some f \<Rightarrow> (w\<lparr>files := after_fault (files w) p b f\<rparr>, Some (fault_error p f))
      | None \<Rightarrow> (w\<lparr>files := (files w)(p \<mapsto> b)\<rparr>, None))"

text \<open>
  \<open>atomic.AddInt64(&currentSerialNumber, delta)\<close>: one indivisible step that adds in
  64-bit arithmetic and returns the new value. The result is the new counter and the
  value returned.
\<close>

definition atomic_AddInt64 :: "64 word \<Rightarrow> 64 word \<Rightarrow> 64 word \<times> 64 word" where
  "atomic_AddInt64 c delta = (c + delta, c + delta)"

section \<open>The functions of the file\<close>

text \<open>
  Line 28, the initial value of \<open>currentSerialNumber\<close>: \<open>time.Now().Unix()\<close>, the
  seconds of the instant at which the package is initialised, as an \<open>int64\<close>.
\<close>

definition initialSerialNumber :: "time \<Rightarrow> 64 word" where
  "initialSerialNumber now = word_of_int (now div 1000000000)"

text \<open>\<open>getAbsoluteFilePath\<close>, lines 30 to 38. The result of \<open>os.Mkdir\<close> is discarded.\<close>

definition getAbsoluteFilePath :: "env \<Rightarrow> world \<Rightarrow> string \<Rightarrow> world \<times> string" where
  "getAbsoluteFilePath env w file =
     (case UserConfigDir env of
        Inr userConfigDir \<Rightarrow>
          (let configDir = Join env userConfigDir ''burp-awesome-tls'';
               w' = fst (Mkdir env w configDir)
           in (w', Join env configDir file))
      | Inl err \<Rightarrow> (w, file))"

text \<open>\<open>readCertFromDisk\<close>, lines 40 to 52.\<close>

definition readCertFromDisk :: "env \<Rightarrow> world \<Rightarrow> string \<Rightarrow> world \<times> (error + certificate)" where
  "readCertFromDisk env w file =
     (let (w', p) = getAbsoluteFilePath env w file in
      case ReadFile env w' p of
        Inl err \<Rightarrow> (w', Inl err)
      | Inr bs \<Rightarrow> (case ParseCertificate env bs of
                    Inl err \<Rightarrow> (w', Inl err)
                  | Inr cert \<Rightarrow> (w', Inr cert)))"

text \<open>\<open>readPrivateKeyFromDisk\<close>, lines 54 to 71.\<close>

definition readPrivateKeyFromDisk ::
  "env \<Rightarrow> world \<Rightarrow> string \<Rightarrow> world \<times> (error + rsa_PrivateKey)" where
  "readPrivateKeyFromDisk env w file =
     (let (w', p) = getAbsoluteFilePath env w file in
      case ReadFile env w' p of
        Inl err \<Rightarrow> (w', Inl err)
      | Inr bs \<Rightarrow> (case ParsePKCS8PrivateKey env bs of
                    Inl err \<Rightarrow> (w', Inl err)
                  | Inr key \<Rightarrow> (case key of
                                 RSAPrivateKey privatePkcs8RsaKey \<Rightarrow> (w', Inr privatePkcs8RsaKey)
                               | _ \<Rightarrow> (w', Inl (Errorf ''Pkcs8 contained non-RSA key. Expected RSA key.'')))))"

text \<open>
  \<open>NewCertificateAuthority\<close>, lines 74 to 154, in three parts. \<open>loadCA\<close> is lines 75
  to 86: \<open>Some\<close> is the return of line 84, \<open>None\<close> is falling through to line 88.
\<close>

definition Log :: "world \<Rightarrow> log_entry \<Rightarrow> world" where
  "Log w e = w\<lparr>logs := logs w @ [e]\<rparr>"

definition loadCA :: "env \<Rightarrow> world \<Rightarrow> world \<times> (certificate \<times> rsa_PrivateKey) option" where
  "loadCA env w =
     (case readCertFromDisk env w caFile of
        (w1, Inl err) \<Rightarrow>
          (if \<not> errors_Is_ErrNotExist err
           then (Log w1 (Printf ''Error reading cert from disk %s %e'' caFile err), None)
           else (w1, None))
      | (w1, Inr certFromDisk) \<Rightarrow>
          (case readPrivateKeyFromDisk env w1 caKeyFile of
             (w2, Inl err) \<Rightarrow>
               (Log w2 (Printf ''Error reading private key from disk %s %e'' caKeyFile err), None)
           | (w2, Inr keyFromDisk) \<Rightarrow> (w2, Some (certFromDisk, keyFromDisk))))"

text \<open>The struct literal of lines 111 to 125.\<close>

definition caTemplate :: "64 word \<Rightarrow> bytes \<Rightarrow> time \<Rightarrow> time \<Rightarrow> certificate" where
  "caTemplate serial keyID notBefore notAfter =
     \<lparr> Raw = [],
       SerialNumber = sint serial,
       Issuer = \<lparr>CommonName = [], Organization = []\<rparr>,
       Subject = \<lparr>CommonName = ''Awesome TLS'', Organization = [''Sleeyax'']\<rparr>,
       SubjectKeyId = keyID,
       KeyUsage = KeyUsageKeyEncipherment OR KeyUsageDigitalSignature OR KeyUsageCertSign,
       ExtKeyUsage = [ExtKeyUsageServerAuth],
       BasicConstraintsValid = True,
       NotBefore = notBefore,
       NotAfter = notAfter,
       DNSNames = [''awesometls'', ''localhost''],
       IsCA = True,
       PublicKey = None \<rparr>"

text \<open>
  \<open>createCA\<close> is lines 88 to 130: the key, the subject key identifier, the serial
  number, the template and the signed certificate. It returns the locals \<open>tmpl\<close>,
  \<open>raw\<close> and \<open>priv\<close>.
\<close>

definition createCA ::
  "env \<Rightarrow> world \<Rightarrow> world \<times> (error + certificate \<times> bytes \<times> rsa_PrivateKey)" where
  "createCA env w =
     (let w1 = w\<lparr>entropy := entropy w + 1\<rparr> in
      case GenerateKey env (entropy w) 2048 of
        Inl err \<Rightarrow> (w1, Inl err)
      | Inr priv \<Rightarrow>
          (let pub = RSAPublicKey (Public priv) in
           case MarshalPKIXPublicKey env pub of
             Inl err \<Rightarrow> (w1, Inl err)
           | Inr pkixpub \<Rightarrow>
               (case sha1_Write env pkixpub of
                  Some err \<Rightarrow> (w1, Inl err)
                | None \<Rightarrow>
                    (let keyID = sha1_Sum env pkixpub;
                         (c, serial) = atomic_AddInt64 (currentSerialNumber w1) 1;
                         notBefore = AddDate env (clock env (ticks w1)) (- 1) 0 0;
                         notAfter = AddDate env (clock env (ticks w1 + 1)) 1 0 0;
                         tmpl = caTemplate serial keyID notBefore notAfter;
                         w2 = w1\<lparr>currentSerialNumber := c, ticks := ticks w1 + 2,
                                 entropy := entropy w1 + 1\<rparr>
                     in case CreateCertificate env (entropy w1) tmpl tmpl pub priv of
                          Inl err \<Rightarrow> (w2, Inl err)
                        | Inr raw \<Rightarrow> (w2, Inr (tmpl, raw, priv))))))"

text \<open>\<open>persistCA\<close> is lines 132 to 153: the two files, then the parsed certificate.\<close>

definition persistCA ::
  "env \<Rightarrow> world \<Rightarrow> bytes \<Rightarrow> rsa_PrivateKey \<Rightarrow> world \<times> (error + certificate \<times> rsa_PrivateKey)" where
  "persistCA env w raw priv =
     (let (w1, p1) = getAbsoluteFilePath env w caFile in
      case WriteFile env w1 p1 raw of
        (w2, Some err) \<Rightarrow> (w2, Inl err)
      | (w2, None) \<Rightarrow>
          (case MarshalPKCS8PrivateKey env priv of
             Inl err \<Rightarrow> (w2, Inl err)
           | Inr privBytes \<Rightarrow>
               (let (w3, p2) = getAbsoluteFilePath env w2 caKeyFile in
                case WriteFile env w3 p2 privBytes of
                  (w4, Some err) \<Rightarrow> (w4, Inl err)
                | (w4, None) \<Rightarrow>
                    (case ParseCertificate env raw of
                       Inl err \<Rightarrow> (w4, Inl err)
                     | Inr x509c \<Rightarrow> (w4, Inr (x509c, priv))))))"

text \<open>Lines 88 to 153, the generate path.\<close>

definition generateCA ::
  "env \<Rightarrow> world \<Rightarrow> world \<times> (error + certificate \<times> rsa_PrivateKey)" where
  "generateCA env w =
     (case createCA env w of
        (w1, Inl err) \<Rightarrow> (w1, Inl err)
      | (w1, Inr (tmpl, raw, priv)) \<Rightarrow> persistCA env w1 raw priv)"

definition NewCertificateAuthority ::
  "env \<Rightarrow> world \<Rightarrow> world \<times> (error + certificate \<times> rsa_PrivateKey)" where
  "NewCertificateAuthority env w =
     (case loadCA env w of
        (w1, Some (certFromDisk, keyFromDisk)) \<Rightarrow> (w1, Inr (certFromDisk, keyFromDisk))
      | (w1, None) \<Rightarrow> generateCA env w1)"

text \<open>
  The path that \<open>getAbsoluteFilePath\<close> returns does not depend on the world; this is
  that path, stated once for the theorems.
\<close>

definition pathOf :: "env \<Rightarrow> string \<Rightarrow> string" where
  "pathOf env file =
     (case UserConfigDir env of
        Inr userConfigDir \<Rightarrow> Join env (Join env userConfigDir ''burp-awesome-tls'') file
      | Inl err \<Rightarrow> file)"

subsection \<open>Serial numbers under a schedule\<close>

text \<open>
  The only step of the file that touches shared state from several goroutines is the
  atomic addition of line 109. A schedule lists the goroutines in the order in which
  their additions take effect; \<open>allocSerials\<close> gives each the value it receives.
\<close>

fun allocSerials :: "nat list \<Rightarrow> 64 word \<Rightarrow> (nat \<times> 64 word) list" where
  "allocSerials [] c = []"
| "allocSerials (t # ts) c =
     (let (c', serial) = atomic_AddInt64 c 1 in (t, serial) # allocSerials ts c')"

section \<open>What the libraries are assumed to do\<close>

text \<open>
  DER times have a resolution of one second: the certificate that crypto/x509 signs
  carries the template's instants without their nanoseconds.
\<close>

definition asn1_time :: "time \<Rightarrow> time" where
  "asn1_time t = t - t mod 1000000000"

text \<open>
  The certificate that \<open>x509.CreateCertificate(rand, tmpl, parent, pub, priv)\<close> encodes:
  the template's fields, the parent's subject as issuer, and \<open>pub\<close> as public key.
\<close>

definition issued :: "certificate \<Rightarrow> certificate \<Rightarrow> public_key \<Rightarrow> bytes \<Rightarrow> certificate" where
  "issued tmpl parent pub raw =
     tmpl\<lparr> Raw := raw,
           Issuer := Subject parent,
           NotBefore := asn1_time (NotBefore tmpl),
           NotAfter := asn1_time (NotAfter tmpl),
           PublicKey := Some pub \<rparr>"

text \<open>Parsing what \<open>CreateCertificate\<close> returned gives that certificate.\<close>

definition x509_contract :: "env \<Rightarrow> bool" where
  "x509_contract env \<longleftrightarrow>
     (\<forall>r tmpl parent pub priv raw c.
        CreateCertificate env r tmpl parent pub priv = Inr raw \<longrightarrow>
        ParseCertificate env raw = Inr c \<longrightarrow>
        c = issued tmpl parent pub raw)"

text \<open>\<open>rsa.GenerateKey(rand, bits)\<close> returns a key whose modulus has \<open>bits\<close> bits.\<close>

definition rsa_contract :: "env \<Rightarrow> bool" where
  "rsa_contract env \<longleftrightarrow>
     (\<forall>r bits k. GenerateKey env r bits = Inr k \<longrightarrow>
        2 ^ (bits - 1) \<le> rsaN (Public k) \<and> rsaN (Public k) < 2 ^ bits)"

section \<open>A concrete environment\<close>

text \<open>
  A small environment and some worlds on which the functions can be run: a home
  directory, a clock that starts at 2023-11-14 22:13:20.5 UTC, the calendar of UTC, and
  libraries that know one generated key and sign the one certificate that the template
  of a first run gives.
\<close>

text \<open>
  Go's \<open>Time.AddDate\<close> for instants in UTC: the civil date of the instant, with years,
  months and days added and then normalised as \<open>time.Date\<close> does (the 29th of
  February of a year that has none is the 1st of March), at the same time of day.
\<close>

definition days_from_civil :: "int \<Rightarrow> int \<Rightarrow> int \<Rightarrow> int" where
  "days_from_civil year month day =
     (let y0 = year + (month - 1) div 12;
          m = (month - 1) mod 12 + 1;
          y = (if m \<le> 2 then y0 - 1 else y0);
          era = y div 400;
          yoe = y - era * 400;
          doy = (153 * (if m > 2 then m - 3 else m + 9) + 2) div 5 + day - 1;
          doe = yoe * 365 + yoe div 4 - yoe div 100 + doy
      in era * 146097 + doe - 719468)"

definition civil_from_days :: "int \<Rightarrow> int \<times> int \<times> int" where
  "civil_from_days z =
     (let z' = z + 719468;
          era = z' div 146097;
          doe = z' - era * 146097;
          yoe = (doe - doe div 1460 + doe div 36524 - doe div 146096) div 365;
          doy = doe - (365 * yoe + yoe div 4 - yoe div 100);
          mp = (5 * doy + 2) div 153;
          d = doy - (153 * mp + 2) div 5 + 1;
          m = (if mp < 10 then mp + 3 else mp - 9);
          y = yoe + era * 400
      in (if m \<le> 2 then y + 1 else y, m, d))"

definition utc_AddDate :: "time \<Rightarrow> int \<Rightarrow> int \<Rightarrow> int \<Rightarrow> time" where
  "utc_AddDate t years months days =
     (let secs = t div 1000000000;
          nsec = t mod 1000000000;
          (y, m, d) = civil_from_days (secs div 86400)
      in (days_from_civil (y + years) (m + months) (d + days) * 86400 + secs mod 86400)
           * 1000000000 + nsec)"

definition demo_key :: rsa_PrivateKey where
  "demo_key = \<lparr>Public = \<lparr>rsaN = 2 ^ 2047 + 9, rsaE = 65537\<rparr>, rsaD = 7, Primes = []\<rparr>"

definition other_key :: rsa_PrivateKey where
  "other_key = \<lparr>Public = \<lparr>rsaN = 2 ^ 2047 + 21, rsaE = 65537\<rparr>, rsaD = 11, Primes = []\<rparr>"

definition demo_raw :: bytes where
  "demo_raw = [48, 130, 3, 9]"

definition demo_cert :: certificate where
  "demo_cert =
     \<lparr> Raw = [48, 130, 3, 9],
       SerialNumber = 1700000001,
       Issuer = \<lparr>CommonName = ''Awesome TLS'', Organization = [''Sleeyax'']\<rparr>,
       Subject = \<lparr>CommonName = ''Awesome TLS'', Organization = [''Sleeyax'']\<rparr>,
       SubjectKeyId = [1, 2, 3],
       KeyUsage = 37,
       ExtKeyUsage = [ExtKeyUsageServerAuth],
       BasicConstraintsValid = True,
       NotBefore = 1668464000000000000,
       NotAfter = 1731622400000000000,
       DNSNames = [''awesometls'', ''localhost''],
       IsCA = True,
       PublicKey = Some (RSAPublicKey (Public demo_key)) \<rparr>"

text \<open>The template that a first run builds on that clock and counter.\<close>

definition demo_tmpl :: certificate where
  "demo_tmpl = caTemplate 1700000001 [1, 2, 3] 1668464000500000000 1731622400500000001"

definition demo_env :: env where
  "demo_env =
     \<lparr> UserConfigDir = Inr ''/home/u/.config'',
       Join = (\<lambda>a b. a @ ''/'' @ b),
       mkdir_errno = (\<lambda>p. None),
       read_errno = (\<lambda>p. None),
       write_fault = (\<lambda>p b. None),
       ParseCertificate =
         (\<lambda>bs. if bs = demo_raw then Inr demo_cert
               else Inl (X509Error ''x509: malformed certificate'')),
       ParsePKCS8PrivateKey =
         (\<lambda>bs. if bs = [2] then Inr (RSAPrivateKey demo_key)
               else if bs = [3] then Inr (RSAPrivateKey other_key)
               else if bs = [4] then Inr (ECDSAPrivateKey [4])
               else Inl (X509Error ''x509: failed to parse private key'')),
       GenerateKey =
         (\<lambda>r bits. if bits = 2048 then Inr demo_key
                   else Inl (RSAError ''crypto/rsa: unsupported key size'')),
       MarshalPKIXPublicKey = (\<lambda>pub. Inr [5]),
       sha1_Write = (\<lambda>bs. None),
       sha1_Sum = (\<lambda>bs. [1, 2, 3]),
       CreateCertificate =
         (\<lambda>r tmpl parent pub priv.
            if issued tmpl parent pub demo_raw = demo_cert then Inr demo_raw
            else Inl (X509Error ''x509: unsupported template'')),
       MarshalPKCS8PrivateKey =
         (\<lambda>k. if k = demo_key then Inr [2] else if k = other_key then Inr [3]
              else Inl (X509Error ''x509: unknown key'')),
       AddDate = utc_AddDate,
       clock = (\<lambda>n. 1700000000500000000 + int n) \<rparr>"

text \<open>The same system without a home directory, and with a directory it cannot create.\<close>

definition nohome_env :: env where
  "nohome_env = demo_env\<lparr>UserConfigDir := Inl (EnvError ''neither $XDG_CONFIG_HOME nor $HOME are defined'')\<rparr>"

definition nomkdir_env :: env where
  "nomkdir_env = demo_env\<lparr>mkdir_errno := (\<lambda>p. Some ENOENT)\<rparr>"

text \<open>
  The same system where the key file cannot be opened for writing, and where the disk is
  full when the key file, opened and cut to nothing, is to be written.
\<close>

definition rokey_env :: env where
  "rokey_env =
     demo_env\<lparr>write_fault :=
       (\<lambda>p b. if p = ''/home/u/.config/burp-awesome-tls/caKey.der''
              then Some (OpenFails EACCES) else None)\<rparr>"

definition diskfull_env :: env where
  "diskfull_env =
     demo_env\<lparr>write_fault :=
       (\<lambda>p b. if p = ''/home/u/.config/burp-awesome-tls/caKey.der''
              then Some (WriteFails ENOSPC 0) else None)\<rparr>"

text \<open>A first run: the configuration directory exists, nothing is stored.\<close>

definition fresh_world :: world where
  "fresh_world =
     \<lparr> dirs = {''/home/u/.config''},
       files = Map.empty,
       currentSerialNumber = 1700000000,
       entropy = 0,
       ticks = 0,
       logs = [] \<rparr>"

text \<open>Storage that holds the certificate and its key.\<close>

definition stored_world :: world where
  "stored_world =
     fresh_world\<lparr> dirs := {''/home/u/.config'', ''/home/u/.config/burp-awesome-tls''},
       files := [''/home/u/.config/burp-awesome-tls/ca.der'' \<mapsto> demo_raw,
                 ''/home/u/.config/burp-awesome-tls/caKey.der'' \<mapsto> [2]] \<rparr>"

text \<open>Storage that holds the certificate and the key of another pair.\<close>

definition mismatch_world :: world where
  "mismatch_world =
     stored_world\<lparr> files :=
       [''/home/u/.config/burp-awesome-tls/ca.der'' \<mapsto> demo_raw,
        ''/home/u/.config/burp-awesome-tls/caKey.der'' \<mapsto> [3]] \<rparr>"

text \<open>Storage whose key file holds an ECDSA key, and storage whose certificate is damaged.\<close>

definition ecdsa_world :: world where
  "ecdsa_world =
     stored_world\<lparr> files :=
       [''/home/u/.config/burp-awesome-tls/ca.der'' \<mapsto> demo_raw,
        ''/home/u/.config/burp-awesome-tls/caKey.der'' \<mapsto> [4]] \<rparr>"

definition damaged_world :: world where
  "damaged_world =
     stored_world\<lparr> files :=
       [''/home/u/.config/burp-awesome-tls/ca.der'' \<mapsto> [0],
        ''/home/u/.config/burp-awesome-tls/caKey.der'' \<mapsto> [3]] \<rparr>"

lemmas demo_defs =
  demo_env_def nohome_env_def nomkdir_env_def rokey_env_def diskfull_env_def fresh_world_def stored_world_def
  mismatch_world_def ecdsa_world_def damaged_world_def demo_raw_def caFile_def caKeyFile_def

lemmas op_defs =
  getAbsoluteFilePath_def Mkdir_def ReadFile_def WriteFile_def readCertFromDisk_def
  readPrivateKeyFromDisk_def pathOf_def

section \<open>Resolving paths and reading the files\<close>

lemma getAbsoluteFilePath_snd: "snd (getAbsoluteFilePath env w fname) = pathOf env fname"
  by (simp add: getAbsoluteFilePath_def pathOf_def Let_def split: sum.splits)

lemma Mkdir_idem: "fst (Mkdir env (fst (Mkdir env w p)) p) = fst (Mkdir env w p)"
  by (simp add: Mkdir_def split: option.splits)

lemma Mkdir_dirs:
  "p \<in> dirs (fst (Mkdir env w p)) \<longleftrightarrow> p \<in> dirs w \<or> snd (Mkdir env w p) = None"
  by (simp add: Mkdir_def split: option.splits)

lemma Mkdir_frame:
  "files (fst (Mkdir env w p)) = files w"
  "currentSerialNumber (fst (Mkdir env w p)) = currentSerialNumber w"
  "entropy (fst (Mkdir env w p)) = entropy w"
  "ticks (fst (Mkdir env w p)) = ticks w"
  "logs (fst (Mkdir env w p)) = logs w"
  by (simp_all add: Mkdir_def split: option.splits)

text \<open>Resolving a path changes nothing but the set of directories, and only once.\<close>

lemma getAbsoluteFilePath_frame:
  "files (fst (getAbsoluteFilePath env w fname)) = files w"
  "currentSerialNumber (fst (getAbsoluteFilePath env w fname)) = currentSerialNumber w"
  "entropy (fst (getAbsoluteFilePath env w fname)) = entropy w"
  "ticks (fst (getAbsoluteFilePath env w fname)) = ticks w"
  "logs (fst (getAbsoluteFilePath env w fname)) = logs w"
  by (simp_all add: getAbsoluteFilePath_def Let_def Mkdir_frame split: sum.splits)

lemma getAbsoluteFilePath_fst_any:
  "fst (getAbsoluteFilePath env w fname) = fst (getAbsoluteFilePath env w fname')"
  by (simp add: getAbsoluteFilePath_def Let_def split: sum.splits)

lemma getAbsoluteFilePath_idem:
  "fst (getAbsoluteFilePath env (fst (getAbsoluteFilePath env w fname)) fname') =
   fst (getAbsoluteFilePath env w fname)"
  by (simp add: getAbsoluteFilePath_def Let_def Mkdir_idem split: sum.splits)

lemma ReadFile_frame: "files w' = files w \<Longrightarrow> ReadFile env w' p = ReadFile env w p"
  by (simp add: ReadFile_def split: option.splits)

lemma ReadFile_resolved:
  "ReadFile env (fst (getAbsoluteFilePath env w fname)) p = ReadFile env w p"
  by (rule ReadFile_frame) (rule getAbsoluteFilePath_frame)

lemma readCertFromDisk_eq:
  "readCertFromDisk env w fname =
     (fst (getAbsoluteFilePath env w fname),
      case ReadFile env w (pathOf env fname) of
        Inl err \<Rightarrow> Inl err
      | Inr bs \<Rightarrow> ParseCertificate env bs)"
  by (simp add: readCertFromDisk_def split_beta getAbsoluteFilePath_snd ReadFile_resolved
           split: sum.splits)

lemma readPrivateKeyFromDisk_eq:
  "readPrivateKeyFromDisk env w fname =
     (fst (getAbsoluteFilePath env w fname),
      case ReadFile env w (pathOf env fname) of
        Inl err \<Rightarrow> Inl err
      | Inr bs \<Rightarrow> (case ParsePKCS8PrivateKey env bs of
                    Inl err \<Rightarrow> Inl err
                  | Inr (RSAPrivateKey k) \<Rightarrow> Inr k
                  | Inr _ \<Rightarrow> Inl (Errorf ''Pkcs8 contained non-RSA key. Expected RSA key.'')))"
  by (simp add: readPrivateKeyFromDisk_def split_beta getAbsoluteFilePath_snd ReadFile_resolved
           split: sum.splits private_key.splits)

text \<open>
  C8. When the key file can be read and its bytes parse as a PKCS#8 container whose key
  is not an RSA key, \<open>readPrivateKeyFromDisk\<close> returns the error it makes itself with
  \<open>fmt.Errorf\<close> at line 67, which is no \<open>*fs.PathError\<close> and no error of
  \<open>x509\<close>, and it returns no key.
\<close>

theorem readPrivateKeyFromDisk_non_RSA:
  assumes "ReadFile env w (pathOf env fname) = Inr bs"
      and "ParsePKCS8PrivateKey env bs = Inr key"
      and "\<forall>k. key \<noteq> RSAPrivateKey k"
  shows "snd (readPrivateKeyFromDisk env w fname) =
           Inl (Errorf ''Pkcs8 contained non-RSA key. Expected RSA key.'')
         \<and> (\<forall>k. snd (readPrivateKeyFromDisk env w fname) \<noteq> Inr k)
         \<and> (\<forall>op p n. snd (readPrivateKeyFromDisk env w fname) \<noteq> Inl (PathError op p n))
         \<and> (\<forall>msg. snd (readPrivateKeyFromDisk env w fname) \<noteq> Inl (X509Error msg))"
  using assms by (cases key) (simp_all add: readPrivateKeyFromDisk_eq)

theorem readPrivateKeyFromDisk_non_RSA_witness:
  "snd (readPrivateKeyFromDisk demo_env ecdsa_world caKeyFile) =
     Inl (Errorf ''Pkcs8 contained non-RSA key. Expected RSA key.'')
   \<and> (\<forall>k. snd (readPrivateKeyFromDisk demo_env ecdsa_world caKeyFile) \<noteq> Inr k)"
  using readPrivateKeyFromDisk_non_RSA
          [of demo_env ecdsa_world caKeyFile "[4]" "ECDSAPrivateKey [4]"]
  by (simp add: demo_defs ReadFile_def pathOf_def)

text \<open>
  C9, as the code has it. When the user configuration directory is known,
  \<open>getAbsoluteFilePath\<close> returns that directory joined with \<open>burp-awesome-tls\<close> and
  the file name, after one attempt to create the directory whose result it discards:
  the directory exists afterwards exactly when it existed before or the creation
  succeeded, and a second call changes nothing more. When the user configuration
  directory is not known it returns the file name and leaves the world alone. As a
  function it has a result in every case.
\<close>

theorem getAbsoluteFilePath_best_effort:
  "(UserConfigDir env = Inr d \<longrightarrow>
      snd (getAbsoluteFilePath env w fname) = Join env (Join env d ''burp-awesome-tls'') fname
      \<and> fst (getAbsoluteFilePath env w fname) = fst (Mkdir env w (Join env d ''burp-awesome-tls''))
      \<and> (Join env d ''burp-awesome-tls'' \<in> dirs (fst (getAbsoluteFilePath env w fname)) \<longleftrightarrow>
           Join env d ''burp-awesome-tls'' \<in> dirs w
           \<or> snd (Mkdir env w (Join env d ''burp-awesome-tls'')) = None)
      \<and> getAbsoluteFilePath env (fst (getAbsoluteFilePath env w fname)) fname =
           getAbsoluteFilePath env w fname)
   \<and> (UserConfigDir env = Inl e \<longrightarrow> getAbsoluteFilePath env w fname = (w, fname))"
  by (simp add: getAbsoluteFilePath_def Let_def Mkdir_dirs Mkdir_idem)

theorem getAbsoluteFilePath_best_effort_witness:
  "UserConfigDir demo_env = Inr ''/home/u/.config''
   \<and> snd (getAbsoluteFilePath demo_env fresh_world caFile) =
         ''/home/u/.config/burp-awesome-tls/ca.der''
   \<and> ''/home/u/.config/burp-awesome-tls'' \<in> dirs (fst (getAbsoluteFilePath demo_env fresh_world caFile))
   \<and> UserConfigDir nohome_env = Inl (EnvError ''neither $XDG_CONFIG_HOME nor $HOME are defined'')
   \<and> getAbsoluteFilePath nohome_env fresh_world caFile = (fresh_world, ''ca.der'')"
  using getAbsoluteFilePath_best_effort
          [where env = demo_env and d = "''/home/u/.config''" and w = fresh_world and fname = caFile]
        getAbsoluteFilePath_best_effort
          [where env = nohome_env and w = fresh_world and fname = caFile
             and e = "EnvError ''neither $XDG_CONFIG_HOME nor $HOME are defined''"]
  by (simp add: demo_defs Mkdir_def)

text \<open>
  C9 as the specification has it fails: where the directory cannot be created (its
  parent is missing, say) the path is returned all the same and the directory does not
  exist.
\<close>

theorem getAbsoluteFilePath_directory_missing:
  "getAbsoluteFilePath nomkdir_env (fresh_world\<lparr>dirs := {}\<rparr>) caFile =
     (fresh_world\<lparr>dirs := {}\<rparr>, ''/home/u/.config/burp-awesome-tls/ca.der'')
   \<and> ''/home/u/.config/burp-awesome-tls''
        \<notin> dirs (fst (getAbsoluteFilePath nomkdir_env (fresh_world\<lparr>dirs := {}\<rparr>) caFile))"
  by (simp add: demo_defs getAbsoluteFilePath_def Mkdir_def)

section \<open>The load path\<close>

lemma loadCA_valid:
  assumes "ReadFile env w (pathOf env caFile) = Inr cb"
      and "ParseCertificate env cb = Inr c"
      and "ReadFile env w (pathOf env caKeyFile) = Inr kb"
      and "ParsePKCS8PrivateKey env kb = Inr (RSAPrivateKey k)"
  shows "loadCA env w = (fst (getAbsoluteFilePath env w caFile), Some (c, k))"
  using assms
  by (simp add: loadCA_def readCertFromDisk_eq readPrivateKeyFromDisk_eq ReadFile_resolved
        getAbsoluteFilePath_idem)

text \<open>
  C1, as the code has it. When both files load, \<open>NewCertificateAuthority\<close> returns
  the certificate and the key as loaded; it compares no public keys, so the pair is
  returned whether or not they match.
\<close>

theorem NewCertificateAuthority_returns_loaded_pair:
  assumes "readCertFromDisk env w caFile = (w1, Inr c)"
      and "readPrivateKeyFromDisk env w1 caKeyFile = (w2, Inr k)"
  shows "NewCertificateAuthority env w = (w2, Inr (c, k))"
  using assms by (simp add: NewCertificateAuthority_def loadCA_def)

theorem NewCertificateAuthority_returns_loaded_pair_witness:
  "NewCertificateAuthority demo_env mismatch_world = (mismatch_world, Inr (demo_cert, other_key))"
proof -
  have a: "readCertFromDisk demo_env mismatch_world caFile = (mismatch_world, Inr demo_cert)"
    by (simp add: op_defs demo_defs)
  have b: "readPrivateKeyFromDisk demo_env mismatch_world caKeyFile = (mismatch_world, Inr other_key)"
    by (simp add: op_defs demo_defs)
  show ?thesis
    by (rule NewCertificateAuthority_returns_loaded_pair [OF a b])
qed

text \<open>
  C1 as the specification has it fails: a certificate stored beside the key of another
  pair is returned with that key, and nothing is generated.
\<close>

theorem NewCertificateAuthority_mismatched_pair:
  "readCertFromDisk demo_env mismatch_world caFile = (mismatch_world, Inr demo_cert)
   \<and> readPrivateKeyFromDisk demo_env mismatch_world caKeyFile = (mismatch_world, Inr other_key)
   \<and> PublicKey demo_cert \<noteq> Some (RSAPublicKey (Public other_key))
   \<and> NewCertificateAuthority demo_env mismatch_world =
       (mismatch_world, Inr (demo_cert, other_key))"
proof -
  have a: "readCertFromDisk demo_env mismatch_world caFile = (mismatch_world, Inr demo_cert)"
    by (simp add: op_defs demo_defs)
  have b: "readPrivateKeyFromDisk demo_env mismatch_world caKeyFile = (mismatch_world, Inr other_key)"
    by (simp add: op_defs demo_defs)
  have c: "PublicKey demo_cert \<noteq> Some (RSAPublicKey (Public other_key))"
    by (simp add: demo_cert_def demo_key_def other_key_def)
  have d: "NewCertificateAuthority demo_env mismatch_world =
             (mismatch_world, Inr (demo_cert, other_key))"
    by (simp add: NewCertificateAuthority_def loadCA_def a b)
  from a b c d show ?thesis by simp
qed

text \<open>
  C2. When the storage holds a certificate file that parses and a key file that parses
  to an RSA key, a call returns that pair, a second call on the world the first one left
  returns the same pair (hence the same serial number and validity window) and leaves
  that world as it is, and the first call has written no file, allocated no serial
  number, and used neither the random source nor the clock.
\<close>

theorem NewCertificateAuthority_idempotent:
  assumes "ReadFile env w (pathOf env caFile) = Inr cb"
      and "ParseCertificate env cb = Inr c"
      and "ReadFile env w (pathOf env caKeyFile) = Inr kb"
      and "ParsePKCS8PrivateKey env kb = Inr (RSAPrivateKey k)"
  shows "snd (NewCertificateAuthority env w) = Inr (c, k)
         \<and> NewCertificateAuthority env (fst (NewCertificateAuthority env w)) =
             (fst (NewCertificateAuthority env w), Inr (c, k))
         \<and> files (fst (NewCertificateAuthority env w)) = files w
         \<and> currentSerialNumber (fst (NewCertificateAuthority env w)) = currentSerialNumber w
         \<and> entropy (fst (NewCertificateAuthority env w)) = entropy w
         \<and> ticks (fst (NewCertificateAuthority env w)) = ticks w
         \<and> logs (fst (NewCertificateAuthority env w)) = logs w"
proof -
  let ?w1 = "fst (getAbsoluteFilePath env w caFile)"
  have first: "NewCertificateAuthority env w = (?w1, Inr (c, k))"
    by (simp add: NewCertificateAuthority_def loadCA_valid [OF assms])
  have rc: "ReadFile env ?w1 (pathOf env caFile) = Inr cb"
    using assms(1) by (simp add: ReadFile_resolved)
  have rk: "ReadFile env ?w1 (pathOf env caKeyFile) = Inr kb"
    using assms(3) by (simp add: ReadFile_resolved)
  have "loadCA env ?w1 = (fst (getAbsoluteFilePath env ?w1 caFile), Some (c, k))"
    by (rule loadCA_valid [OF rc assms(2) rk assms(4)])
  then have second: "NewCertificateAuthority env ?w1 = (?w1, Inr (c, k))"
    by (simp add: NewCertificateAuthority_def getAbsoluteFilePath_idem)
  show ?thesis
    by (simp add: first second getAbsoluteFilePath_frame)
qed

theorem NewCertificateAuthority_idempotent_witness:
  "snd (NewCertificateAuthority demo_env stored_world) = Inr (demo_cert, demo_key)
   \<and> NewCertificateAuthority demo_env (fst (NewCertificateAuthority demo_env stored_world)) =
       (fst (NewCertificateAuthority demo_env stored_world), Inr (demo_cert, demo_key))
   \<and> files (fst (NewCertificateAuthority demo_env stored_world)) = files stored_world
   \<and> currentSerialNumber (fst (NewCertificateAuthority demo_env stored_world)) = 1700000000"
proof -
  have a: "ReadFile demo_env stored_world (pathOf demo_env caFile) = Inr demo_raw"
    by (simp add: op_defs demo_defs)
  have b: "ParseCertificate demo_env demo_raw = Inr demo_cert"
    by (simp add: demo_defs)
  have c: "ReadFile demo_env stored_world (pathOf demo_env caKeyFile) = Inr [2]"
    by (simp add: op_defs demo_defs)
  have d: "ParsePKCS8PrivateKey demo_env [2] = Inr (RSAPrivateKey demo_key)"
    by (simp add: demo_defs)
  have "currentSerialNumber stored_world = 1700000000"
    by (simp add: demo_defs)
  with NewCertificateAuthority_idempotent [OF a b c d] show ?thesis
    by simp
qed

section \<open>The generate path\<close>

lemma Log_frame:
  "files (Log w e) = files w"
  "currentSerialNumber (Log w e) = currentSerialNumber w"
  "entropy (Log w e) = entropy w"
  "ticks (Log w e) = ticks w"
  "dirs (Log w e) = dirs w"
  by (simp_all add: Log_def)

lemma loadCA_frame:
  "files (fst (loadCA env w)) = files w"
  "currentSerialNumber (fst (loadCA env w)) = currentSerialNumber w"
  "entropy (fst (loadCA env w)) = entropy w"
  "ticks (fst (loadCA env w)) = ticks w"
  by (simp_all add: loadCA_def readCertFromDisk_eq readPrivateKeyFromDisk_eq Log_frame
        getAbsoluteFilePath_frame split: sum.splits private_key.splits)

lemma createCA_frame:
  "files (fst (createCA env w)) = files w"
  "dirs (fst (createCA env w)) = dirs w"
  by (simp_all add: createCA_def Let_def atomic_AddInt64_def split: sum.splits option.splits)

lemma createCA_Inr:
  assumes "createCA env w = (w', Inr (tmpl, raw, priv))"
  shows "GenerateKey env (entropy w) 2048 = Inr priv"
    and "\<exists>pkixpub. MarshalPKIXPublicKey env (RSAPublicKey (Public priv)) = Inr pkixpub
           \<and> tmpl = caTemplate (currentSerialNumber w + 1) (sha1_Sum env pkixpub)
                      (AddDate env (clock env (ticks w)) (- 1) 0 0)
                      (AddDate env (clock env (ticks w + 1)) 1 0 0)"
    and "CreateCertificate env (entropy w + 1) tmpl tmpl (RSAPublicKey (Public priv)) priv = Inr raw"
    and "currentSerialNumber w' = currentSerialNumber w + 1"
  using assms
  by (auto simp: createCA_def Let_def atomic_AddInt64_def split: sum.splits option.splits)

lemma after_fault_keeps: "fs q \<noteq> None \<Longrightarrow> after_fault fs p b f q \<noteq> None"
  by (cases f) simp_all

lemma after_fault_other: "q \<noteq> p \<Longrightarrow> after_fault fs p b f q = fs q"
  by (cases f) simp_all

lemma Mkdir_after_write:
  assumes "fst (Mkdir env w p) = w" and "files w p \<noteq> None \<longrightarrow> fs p \<noteq> None"
  shows "fst (Mkdir env (w\<lparr>files := fs\<rparr>) p) = w\<lparr>files := fs\<rparr>"
  using assms
  by (auto simp: Mkdir_def split: option.splits if_splits dest: arg_cong [where f = dirs])

lemma getAbsoluteFilePath_after_write:
  assumes "fst (getAbsoluteFilePath env w fname) = w" and "\<forall>q. files w q \<noteq> None \<longrightarrow> fs q \<noteq> None"
  shows "fst (getAbsoluteFilePath env (w\<lparr>files := fs\<rparr>) fname') = w\<lparr>files := fs\<rparr>"
  using assms
  by (auto simp: getAbsoluteFilePath_def Let_def Mkdir_after_write split: sum.splits)

text \<open>The persist part, by the outcome of its steps.\<close>

lemma persistCA_eq:
  "persistCA env w raw priv =
     (let w1 = fst (getAbsoluteFilePath env w caFile) in
      case write_fault env (pathOf env caFile) raw of
        Some f \<Rightarrow>
          (w1\<lparr>files := after_fault (files w1) (pathOf env caFile) raw f\<rparr>,
           Inl (fault_error (pathOf env caFile) f))
      | None \<Rightarrow>
          (let w2 = w1\<lparr>files := (files w1)(pathOf env caFile \<mapsto> raw)\<rparr> in
           case MarshalPKCS8PrivateKey env priv of
             Inl err \<Rightarrow> (w2, Inl err)
           | Inr privBytes \<Rightarrow>
               (case write_fault env (pathOf env caKeyFile) privBytes of
                  Some f \<Rightarrow>
                    (w2\<lparr>files := after_fault (files w2) (pathOf env caKeyFile) privBytes f\<rparr>,
                     Inl (fault_error (pathOf env caKeyFile) f))
                | None \<Rightarrow>
                    (w2\<lparr>files := (files w2)(pathOf env caKeyFile \<mapsto> privBytes)\<rparr>,
                     case ParseCertificate env raw of
                       Inl err \<Rightarrow> Inl err
                     | Inr x509c \<Rightarrow> Inr (x509c, priv)))))"
proof -
  let ?w1 = "fst (getAbsoluteFilePath env w caFile)"
  have idem: "fst (getAbsoluteFilePath env ?w1 caFile) = ?w1"
    by (rule getAbsoluteFilePath_idem)
  have again: "fst (getAbsoluteFilePath env (?w1\<lparr>files := (files ?w1)(q \<mapsto> b)\<rparr>) caKeyFile) =
                 ?w1\<lparr>files := (files ?w1)(q \<mapsto> b)\<rparr>" for q b
    by (rule getAbsoluteFilePath_after_write [OF idem]) simp
  show ?thesis
    by (simp add: persistCA_def split_beta Let_def WriteFile_def getAbsoluteFilePath_snd again
          split: option.splits sum.splits)
qed

lemma loadCA_None_cert:
  assumes "snd (readCertFromDisk env w caFile) = Inl e"
  shows "snd (loadCA env w) = None"
  using assms by (simp add: loadCA_def split_beta split: prod.splits sum.splits)

lemma loadCA_None_key:
  assumes "snd (readCertFromDisk env w caFile) = Inr c"
      and "snd (readPrivateKeyFromDisk env (fst (readCertFromDisk env w caFile)) caKeyFile) = Inl e"
  shows "snd (loadCA env w) = None"
  using assms by (simp add: loadCA_def split_beta split: prod.splits sum.splits)

lemma NewCertificateAuthority_generate:
  "snd (loadCA env w) = None \<Longrightarrow>
   NewCertificateAuthority env w = generateCA env (fst (loadCA env w))"
  by (cases "loadCA env w") (simp add: NewCertificateAuthority_def)

text \<open>
  C3. Whatever goes wrong on the load path (the certificate file cannot be read, its
  bytes do not parse, the key file cannot be read, its bytes do not parse, or they hold
  a key that is not an RSA key), the load part returns nothing and
  \<open>NewCertificateAuthority\<close> is the generate path run on the world that the load
  part left, in which no file and no serial number has changed: its result, and with it
  any error it returns, is the result of the generate path.
\<close>

theorem NewCertificateAuthority_load_errors:
  assumes "ReadFile env w (pathOf env caFile) = Inl e
           \<or> ReadFile env w (pathOf env caFile) = Inr cb \<and> ParseCertificate env cb = Inl e
           \<or> ReadFile env w (pathOf env caFile) = Inr cb \<and> ParseCertificate env cb = Inr c
               \<and> (ReadFile env w (pathOf env caKeyFile) = Inl e
                   \<or> ReadFile env w (pathOf env caKeyFile) = Inr kb
                       \<and> (ParsePKCS8PrivateKey env kb = Inl e
                           \<or> ParsePKCS8PrivateKey env kb = Inr key
                               \<and> (\<forall>k. key \<noteq> RSAPrivateKey k)))"
  shows "snd (loadCA env w) = None
         \<and> NewCertificateAuthority env w = generateCA env (fst (loadCA env w))
         \<and> files (fst (loadCA env w)) = files w
         \<and> currentSerialNumber (fst (loadCA env w)) = currentSerialNumber w"
proof -
  have "snd (loadCA env w) = None"
    using assms
    by (cases key)
       (auto simp: loadCA_def readCertFromDisk_eq readPrivateKeyFromDisk_eq ReadFile_resolved)
  then show ?thesis
    by (simp add: NewCertificateAuthority_generate loadCA_frame)
qed

theorem NewCertificateAuthority_load_errors_witness:
  "snd (loadCA demo_env damaged_world) = None
   \<and> NewCertificateAuthority demo_env damaged_world =
       generateCA demo_env (fst (loadCA demo_env damaged_world))
   \<and> files (fst (loadCA demo_env damaged_world)) = files damaged_world
   \<and> logs (fst (loadCA demo_env damaged_world)) =
       [Printf ''Error reading cert from disk %s %e'' ''ca.der''
          (X509Error ''x509: malformed certificate'')]"
proof -
  have a: "ReadFile demo_env damaged_world (pathOf demo_env caFile) = Inr [0]"
    by (simp add: op_defs demo_defs)
  have b: "ParseCertificate demo_env [0] = Inl (X509Error ''x509: malformed certificate'')"
    by (simp add: demo_defs)
  have c: "logs (fst (loadCA demo_env damaged_world)) =
             [Printf ''Error reading cert from disk %s %e'' ''ca.der''
                (X509Error ''x509: malformed certificate'')]"
    by (simp add: loadCA_def Log_def op_defs demo_defs)
  from a b have "ReadFile demo_env damaged_world (pathOf demo_env caFile) = Inl (X509Error ''x509: malformed certificate'')
           \<or> ReadFile demo_env damaged_world (pathOf demo_env caFile) = Inr [0]
               \<and> ParseCertificate demo_env [0] = Inl (X509Error ''x509: malformed certificate'')
           \<or> ReadFile demo_env damaged_world (pathOf demo_env caFile) = Inr [0]
               \<and> ParseCertificate demo_env [0] = Inr c0
               \<and> (ReadFile demo_env damaged_world (pathOf demo_env caKeyFile) = Inl (X509Error ''x509: malformed certificate'')
                   \<or> ReadFile demo_env damaged_world (pathOf demo_env caKeyFile) = Inr kb0
                       \<and> (ParsePKCS8PrivateKey demo_env kb0 = Inl (X509Error ''x509: malformed certificate'')
                           \<or> ParsePKCS8PrivateKey demo_env kb0 = Inr key0
                               \<and> (\<forall>k. key0 \<noteq> RSAPrivateKey k)))" for c0 kb0 key0
    by simp
  from NewCertificateAuthority_load_errors [OF this] c show ?thesis
    by simp
qed

lemma generateCA_created:
  "createCA env w = (wc, Inr (tmpl, raw, priv)) \<Longrightarrow> generateCA env w = persistCA env wc raw priv"
  by (simp add: generateCA_def)

lemma created_files:
  assumes "loadCA env w = (wl, None)" and "createCA env wl = (wc, Inr (tmpl, raw, priv))"
  shows "files (fst (getAbsoluteFilePath env wc caFile)) = files w"
proof -
  have "files wc = files wl" using createCA_frame(1) [of env wl] assms(2) by simp
  moreover have "files wl = files w" using loadCA_frame(1) [of env w] assms(1) by simp
  ultimately show ?thesis by (simp add: getAbsoluteFilePath_frame)
qed

lemma NewCertificateAuthority_created:
  assumes "loadCA env w = (wl, None)" and "createCA env wl = (wc, Inr (tmpl, raw, priv))"
  shows "NewCertificateAuthority env w = persistCA env wc raw priv"
  using assms by (simp add: NewCertificateAuthority_def generateCA_def)


lemma demo_AddDate:
  "utc_AddDate 1700000000500000000 (- 1) 0 0 = 1668464000500000000"
  "utc_AddDate 1700000000500000001 1 0 0 = 1731622400500000001"
  by code_simp+

lemma demo_createCA:
  assumes "currentSerialNumber w = 1700000000" and "ticks w = 0"
  shows "snd (createCA (demo_env\<lparr>write_fault := f\<rparr>) w) = Inr (demo_tmpl, demo_raw, demo_key)"
  using assms
  by (simp add: createCA_def Let_def atomic_AddInt64_def demo_env_def demo_tmpl_def
        caTemplate_def issued_def asn1_time_def demo_cert_def demo_raw_def demo_AddDate
        KeyUsageKeyEncipherment_def KeyUsageDigitalSignature_def KeyUsageCertSign_def)

lemma demo_loadCA_fresh: "snd (loadCA (demo_env\<lparr>write_fault := f\<rparr>) fresh_world) = None"
  by (simp add: loadCA_def op_defs demo_defs)

lemma demo_loadCA_damaged: "snd (loadCA (demo_env\<lparr>write_fault := f\<rparr>) damaged_world) = None"
  by (simp add: loadCA_def op_defs demo_defs)

text \<open>The generate path of the concrete system, up to the signed certificate.\<close>

lemma demo_created:
  assumes "w = fresh_world \<or> w = damaged_world"
  shows "loadCA (demo_env\<lparr>write_fault := f\<rparr>) w =
           (fst (loadCA (demo_env\<lparr>write_fault := f\<rparr>) w), None)"
    and "createCA (demo_env\<lparr>write_fault := f\<rparr>) (fst (loadCA (demo_env\<lparr>write_fault := f\<rparr>) w)) =
           (fst (createCA (demo_env\<lparr>write_fault := f\<rparr>)
                   (fst (loadCA (demo_env\<lparr>write_fault := f\<rparr>) w))),
            Inr (demo_tmpl, demo_raw, demo_key))"
proof -
  let ?env = "demo_env\<lparr>write_fault := f\<rparr>"
  let ?wl = "fst (loadCA ?env w)"
  show "loadCA ?env w = (?wl, None)"
    using assms demo_loadCA_fresh [of f] demo_loadCA_damaged [of f]
    by (auto simp: prod_eq_iff)
  have "currentSerialNumber ?wl = 1700000000" "ticks ?wl = 0"
    using assms by (auto simp: loadCA_frame demo_defs)
  then have "snd (createCA ?env ?wl) = Inr (demo_tmpl, demo_raw, demo_key)"
    by (rule demo_createCA)
  then show "createCA ?env ?wl = (fst (createCA ?env ?wl), Inr (demo_tmpl, demo_raw, demo_key))"
    by (simp add: prod_eq_iff)
qed

text \<open>
  C4. On the generate path, once the certificate is signed, the certificate file is
  written first and the key file second, and a write that fails, at opening, while
  writing or at closing, ends the call with that error and not with the generated pair.
  When the certificate write fails, the files are what that fault left of the
  certificate file and the key file has not been touched. When the certificate write
  succeeds and the key write fails, the certificate file holds the new certificate and
  the key file what the fault left. When both succeed, the certificate bytes went in
  first and the key bytes second.
\<close>

theorem persist_certificate_then_key:
  assumes "loadCA env w = (wl, None)"
      and "createCA env wl = (wc, Inr (tmpl, raw, priv))"
  shows "(write_fault env (pathOf env caFile) raw = Some f \<longrightarrow>
            snd (NewCertificateAuthority env w) = Inl (fault_error (pathOf env caFile) f)
            \<and> files (fst (NewCertificateAuthority env w)) =
                after_fault (files w) (pathOf env caFile) raw f
            \<and> (pathOf env caKeyFile \<noteq> pathOf env caFile \<longrightarrow>
                 files (fst (NewCertificateAuthority env w)) (pathOf env caKeyFile) =
                   files w (pathOf env caKeyFile)))
         \<and> (write_fault env (pathOf env caFile) raw = None \<longrightarrow>
              MarshalPKCS8PrivateKey env priv = Inr privBytes \<longrightarrow>
                (write_fault env (pathOf env caKeyFile) privBytes = Some f \<longrightarrow>
                   snd (NewCertificateAuthority env w) =
                     Inl (fault_error (pathOf env caKeyFile) f)
                   \<and> files (fst (NewCertificateAuthority env w)) =
                       after_fault ((files w)(pathOf env caFile \<mapsto> raw))
                         (pathOf env caKeyFile) privBytes f)
                \<and> (write_fault env (pathOf env caKeyFile) privBytes = None \<longrightarrow>
                     files (fst (NewCertificateAuthority env w)) =
                       (files w)(pathOf env caFile \<mapsto> raw, pathOf env caKeyFile \<mapsto> privBytes)))"
  by (simp add: NewCertificateAuthority_created [OF assms] persistCA_eq Let_def
        created_files [OF assms] after_fault_other)

theorem persist_certificate_then_key_witness:
  "snd (NewCertificateAuthority diskfull_env fresh_world) =
     Inl (PathError ''write'' ''/home/u/.config/burp-awesome-tls/caKey.der'' ENOSPC)
   \<and> files (fst (NewCertificateAuthority diskfull_env fresh_world)) =
       [''/home/u/.config/burp-awesome-tls/ca.der'' \<mapsto> demo_raw,
        ''/home/u/.config/burp-awesome-tls/caKey.der'' \<mapsto> []]"
proof -
  have p: "pathOf diskfull_env caFile = ''/home/u/.config/burp-awesome-tls/ca.der''"
          "pathOf diskfull_env caKeyFile = ''/home/u/.config/burp-awesome-tls/caKey.der''"
    by (simp_all add: pathOf_def demo_defs)
  have e: "write_fault diskfull_env ''/home/u/.config/burp-awesome-tls/ca.der'' demo_raw = None"
          "write_fault diskfull_env ''/home/u/.config/burp-awesome-tls/caKey.der'' [2] =
             Some (WriteFails ENOSPC 0)"
          "MarshalPKCS8PrivateKey diskfull_env demo_key = Inr [2]"
          "files fresh_world = Map.empty"
    by (simp_all add: demo_defs)
  have eq: "demo_env\<lparr>write_fault := write_fault diskfull_env\<rparr> = diskfull_env"
    by (simp add: diskfull_env_def)
  note c = demo_created [of fresh_world "write_fault diskfull_env", unfolded eq, OF disjI1 [OF refl]]
  from persist_certificate_then_key [OF c, of "WriteFails ENOSPC 0" "[2]"]
  show ?thesis
    by (simp add: p e)
qed

text \<open>
  C10. The two files are not written atomically. When the certificate file is written
  and then the key cannot be marshalled or the key file cannot be written, the call
  returns the error while the certificate file holds the new certificate; the key file
  then holds what it held before (the key did not marshal, or the file did not open),
  the first bytes of the new key (the write broke off) or the new key (only the close
  failed). The runs below leave a new certificate beside the key of another pair, and
  beside a key file cut to nothing.
\<close>

theorem persist_not_atomic:
  assumes "loadCA env w = (wl, None)"
      and "createCA env wl = (wc, Inr (tmpl, raw, priv))"
      and "write_fault env (pathOf env caFile) raw = None"
      and "pathOf env caKeyFile \<noteq> pathOf env caFile"
      and "MarshalPKCS8PrivateKey env priv = Inl e
             \<and> left = files w (pathOf env caKeyFile)
           \<or> MarshalPKCS8PrivateKey env priv = Inr privBytes
               \<and> write_fault env (pathOf env caKeyFile) privBytes = Some f
               \<and> e = fault_error (pathOf env caKeyFile) f
               \<and> left = after_fault (files w) (pathOf env caKeyFile) privBytes f
                          (pathOf env caKeyFile)"
  shows "snd (NewCertificateAuthority env w) = Inl e
         \<and> files (fst (NewCertificateAuthority env w)) (pathOf env caFile) = Some raw
         \<and> files (fst (NewCertificateAuthority env w)) (pathOf env caKeyFile) = left"
proof -
  have other: "after_fault fs (pathOf env caKeyFile) b f (pathOf env caFile) = fs (pathOf env caFile)"
    for fs b
    using assms(4) by (simp add: after_fault_other)
  have same: "after_fault (fs(pathOf env caFile \<mapsto> raw)) (pathOf env caKeyFile) b f
                (pathOf env caKeyFile) =
              after_fault fs (pathOf env caKeyFile) b f (pathOf env caKeyFile)"
    for fs b
    using assms(4) by (cases f) simp_all
  from assms(3-5) show ?thesis
    by (auto simp: NewCertificateAuthority_created [OF assms(1,2)] persistCA_eq Let_def
          created_files [OF assms(1,2)] other same)
qed

theorem persist_not_atomic_witness:
  "snd (NewCertificateAuthority rokey_env damaged_world) =
     Inl (PathError ''open'' ''/home/u/.config/burp-awesome-tls/caKey.der'' EACCES)
   \<and> files (fst (NewCertificateAuthority rokey_env damaged_world))
        ''/home/u/.config/burp-awesome-tls/ca.der'' = Some demo_raw
   \<and> files (fst (NewCertificateAuthority rokey_env damaged_world))
        ''/home/u/.config/burp-awesome-tls/caKey.der'' = Some [3]
   \<and> ParseCertificate rokey_env demo_raw = Inr demo_cert
   \<and> ParsePKCS8PrivateKey rokey_env [3] = Inr (RSAPrivateKey other_key)
   \<and> PublicKey demo_cert \<noteq> Some (RSAPublicKey (Public other_key))
   \<and> snd (NewCertificateAuthority diskfull_env damaged_world) =
       Inl (PathError ''write'' ''/home/u/.config/burp-awesome-tls/caKey.der'' ENOSPC)
   \<and> files (fst (NewCertificateAuthority diskfull_env damaged_world))
        ''/home/u/.config/burp-awesome-tls/ca.der'' = Some demo_raw
   \<and> files (fst (NewCertificateAuthority diskfull_env damaged_world))
        ''/home/u/.config/burp-awesome-tls/caKey.der'' = Some []"
proof -
  have ro: "demo_env\<lparr>write_fault := write_fault rokey_env\<rparr> = rokey_env"
    by (simp add: rokey_env_def)
  have df: "demo_env\<lparr>write_fault := write_fault diskfull_env\<rparr> = diskfull_env"
    by (simp add: diskfull_env_def)
  note cr = demo_created [of damaged_world "write_fault rokey_env", unfolded ro, OF disjI2 [OF refl]]
  note cd = demo_created [of damaged_world "write_fault diskfull_env", unfolded df, OF disjI2 [OF refl]]
  have p: "pathOf rokey_env caFile = ''/home/u/.config/burp-awesome-tls/ca.der''"
          "pathOf rokey_env caKeyFile = ''/home/u/.config/burp-awesome-tls/caKey.der''"
          "pathOf diskfull_env caFile = ''/home/u/.config/burp-awesome-tls/ca.der''"
          "pathOf diskfull_env caKeyFile = ''/home/u/.config/burp-awesome-tls/caKey.der''"
    by (simp_all add: pathOf_def demo_defs)
  have er: "write_fault rokey_env (pathOf rokey_env caFile) demo_raw = None"
    by (simp add: p) (simp add: demo_defs)
  have ed: "write_fault diskfull_env (pathOf diskfull_env caFile) demo_raw = None"
    by (simp add: p) (simp add: demo_defs)
  have nr: "pathOf rokey_env caKeyFile \<noteq> pathOf rokey_env caFile"
    by (simp add: p)
  have nd: "pathOf diskfull_env caKeyFile \<noteq> pathOf diskfull_env caFile"
    by (simp add: p)
  have old: "files damaged_world ''/home/u/.config/burp-awesome-tls/caKey.der'' = Some [3]"
    by (simp add: demo_defs)
  have fr: "MarshalPKCS8PrivateKey rokey_env demo_key =
              Inl (PathError ''open'' ''/home/u/.config/burp-awesome-tls/caKey.der'' EACCES)
              \<and> Some [3] = files damaged_world (pathOf rokey_env caKeyFile)
            \<or> MarshalPKCS8PrivateKey rokey_env demo_key = Inr [2]
               \<and> write_fault rokey_env (pathOf rokey_env caKeyFile) [2] = Some (OpenFails EACCES)
               \<and> PathError ''open'' ''/home/u/.config/burp-awesome-tls/caKey.der'' EACCES =
                   fault_error (pathOf rokey_env caKeyFile) (OpenFails EACCES)
               \<and> Some [3] = after_fault (files damaged_world) (pathOf rokey_env caKeyFile) [2]
                               (OpenFails EACCES) (pathOf rokey_env caKeyFile)"
    by (simp add: p old) (simp add: demo_defs)
  have fd: "MarshalPKCS8PrivateKey diskfull_env demo_key =
              Inl (PathError ''write'' ''/home/u/.config/burp-awesome-tls/caKey.der'' ENOSPC)
              \<and> Some [] = files damaged_world (pathOf diskfull_env caKeyFile)
            \<or> MarshalPKCS8PrivateKey diskfull_env demo_key = Inr [2]
               \<and> write_fault diskfull_env (pathOf diskfull_env caKeyFile) [2] =
                   Some (WriteFails ENOSPC 0)
               \<and> PathError ''write'' ''/home/u/.config/burp-awesome-tls/caKey.der'' ENOSPC =
                   fault_error (pathOf diskfull_env caKeyFile) (WriteFails ENOSPC 0)
               \<and> Some [] = after_fault (files damaged_world) (pathOf diskfull_env caKeyFile) [2]
                              (WriteFails ENOSPC 0) (pathOf diskfull_env caKeyFile)"
    by (simp add: p old) (simp add: demo_defs)
  have q: "ParseCertificate rokey_env demo_raw = Inr demo_cert"
          "ParsePKCS8PrivateKey rokey_env [3] = Inr (RSAPrivateKey other_key)"
    by (simp_all add: demo_defs)
  have r: "PublicKey demo_cert \<noteq> Some (RSAPublicKey (Public other_key))"
    by (simp add: demo_cert_def demo_key_def other_key_def)
  from persist_not_atomic [OF cr er nr fr] persist_not_atomic [OF cd ed nd fd]
  show ?thesis
    by (simp add: p q r)
qed

section \<open>The generated certificate\<close>

lemma createCA_succeeds:
  assumes "GenerateKey env (entropy w) 2048 = Inr priv"
      and "MarshalPKIXPublicKey env (RSAPublicKey (Public priv)) = Inr pkixpub"
      and "sha1_Write env pkixpub = None"
      and "tmpl = caTemplate (currentSerialNumber w + 1) (sha1_Sum env pkixpub)
                    (AddDate env (clock env (ticks w)) (- 1) 0 0)
                    (AddDate env (clock env (ticks w + 1)) 1 0 0)"
      and "CreateCertificate env (entropy w + 1) tmpl tmpl (RSAPublicKey (Public priv)) priv = Inr raw"
  shows "snd (createCA env w) = Inr (tmpl, raw, priv)"
  using assms by (simp add: createCA_def Let_def atomic_AddInt64_def)

lemma persistCA_succeeds:
  assumes "write_fault env (pathOf env caFile) raw = None"
      and "MarshalPKCS8PrivateKey env priv = Inr privBytes"
      and "write_fault env (pathOf env caKeyFile) privBytes = None"
      and "ParseCertificate env raw = Inr cert"
  shows "snd (persistCA env w raw priv) = Inr (cert, priv)"
  using assms by (simp add: persistCA_eq Let_def)

text \<open>When every step of the generate path succeeds, the call returns the pair.\<close>

lemma NewCertificateAuthority_succeeds:
  assumes "loadCA env w = (wl, None)"
      and "GenerateKey env (entropy w) 2048 = Inr priv"
      and "MarshalPKIXPublicKey env (RSAPublicKey (Public priv)) = Inr pkixpub"
      and "sha1_Write env pkixpub = None"
      and "tmpl = caTemplate (currentSerialNumber w + 1) (sha1_Sum env pkixpub)
                    (AddDate env (clock env (ticks w)) (- 1) 0 0)
                    (AddDate env (clock env (ticks w + 1)) 1 0 0)"
      and "CreateCertificate env (entropy w + 1) tmpl tmpl (RSAPublicKey (Public priv)) priv = Inr raw"
      and "write_fault env (pathOf env caFile) raw = None"
      and "MarshalPKCS8PrivateKey env priv = Inr privBytes"
      and "write_fault env (pathOf env caKeyFile) privBytes = None"
      and "ParseCertificate env raw = Inr cert"
  shows "snd (NewCertificateAuthority env w) = Inr (cert, priv)"
proof -
  have fr: "entropy wl = entropy w" "ticks wl = ticks w"
           "currentSerialNumber wl = currentSerialNumber w"
    using loadCA_frame(3) [of env w] loadCA_frame(4) [of env w] loadCA_frame(2) [of env w] assms(1)
    by simp_all
  have a2: "GenerateKey env (entropy wl) 2048 = Inr priv"
    unfolding fr by (rule assms(2))
  have a5: "tmpl = caTemplate (currentSerialNumber wl + 1) (sha1_Sum env pkixpub)
                     (AddDate env (clock env (ticks wl)) (- 1) 0 0)
                     (AddDate env (clock env (ticks wl + 1)) 1 0 0)"
    unfolding fr by (rule assms(5))
  have a6: "CreateCertificate env (entropy wl + 1) tmpl tmpl (RSAPublicKey (Public priv)) priv =
              Inr raw"
    unfolding fr by (rule assms(6))
  have "snd (createCA env wl) = Inr (tmpl, raw, priv)"
    by (rule createCA_succeeds [OF a2 assms(3) assms(4) a5 a6])
  then have c: "createCA env wl = (fst (createCA env wl), Inr (tmpl, raw, priv))"
    by (simp add: prod_eq_iff)
  show ?thesis
    by (simp add: NewCertificateAuthority_created [OF assms(1) c]
          persistCA_succeeds [OF assms(7-10)])
qed

lemma persistCA_Inr:
  assumes "persistCA env w raw priv = (w', Inr (cert, key))"
  shows "ParseCertificate env raw = Inr cert \<and> key = priv"
  using assms
  by (auto simp: persistCA_eq Let_def split: option.splits sum.splits)

lemma generated_pair:
  assumes "loadCA env w = (wl, None)"
      and "NewCertificateAuthority env w = (w', Inr (cert, key))"
  shows "\<exists>pkixpub raw.
           GenerateKey env (entropy w) 2048 = Inr key
           \<and> MarshalPKIXPublicKey env (RSAPublicKey (Public key)) = Inr pkixpub
           \<and> CreateCertificate env (entropy w + 1)
                (caTemplate (currentSerialNumber w + 1) (sha1_Sum env pkixpub)
                   (AddDate env (clock env (ticks w)) (- 1) 0 0)
                   (AddDate env (clock env (ticks w + 1)) 1 0 0))
                (caTemplate (currentSerialNumber w + 1) (sha1_Sum env pkixpub)
                   (AddDate env (clock env (ticks w)) (- 1) 0 0)
                   (AddDate env (clock env (ticks w + 1)) 1 0 0))
                (RSAPublicKey (Public key)) key = Inr raw
           \<and> ParseCertificate env raw = Inr cert"
proof -
  have fr: "entropy wl = entropy w" "ticks wl = ticks w"
           "currentSerialNumber wl = currentSerialNumber w"
    using loadCA_frame(3) [of env w] loadCA_frame(4) [of env w] loadCA_frame(2) [of env w] assms(1)
    by simp_all
  have g: "generateCA env wl = (w', Inr (cert, key))"
    using assms by (simp add: NewCertificateAuthority_def)
  then obtain wc tmpl raw priv where
    c: "createCA env wl = (wc, Inr (tmpl, raw, priv))" and
    p: "persistCA env wc raw priv = (w', Inr (cert, key))"
    by (auto simp: generateCA_def split: prod.splits sum.splits)
  from persistCA_Inr [OF p] have k: "ParseCertificate env raw = Inr cert" "key = priv"
    by simp_all
  from createCA_Inr [OF c] k fr show ?thesis
    by auto
qed

lemma usages_ca:
  "usages (KeyUsageKeyEncipherment OR KeyUsageDigitalSignature OR KeyUsageCertSign) =
     [KeyUsageDigitalSignature, KeyUsageKeyEncipherment, KeyUsageCertSign]"
  by (simp add: usages_def allKeyUsages_def KeyUsageKeyEncipherment_def
        KeyUsageDigitalSignature_def KeyUsageCertSign_def KeyUsageContentCommitment_def
        KeyUsageDataEncipherment_def KeyUsageKeyAgreement_def KeyUsageCRLSign_def
        KeyUsageEncipherOnly_def KeyUsageDecipherOnly_def)

lemma demo_x509_contract: "x509_contract demo_env"
  unfolding x509_contract_def
  by (auto simp: demo_env_def demo_raw_def split: if_splits)

lemma demo_rsa_contract: "rsa_contract demo_env"
  unfolding rsa_contract_def
  by (auto simp: demo_env_def demo_key_def split: if_splits)

text \<open>The steps of the generate path on the concrete system.\<close>

lemma demo_steps:
  "loadCA demo_env fresh_world = (fst (loadCA demo_env fresh_world), None)"
  "GenerateKey demo_env (entropy fresh_world) 2048 = Inr demo_key"
  "MarshalPKIXPublicKey demo_env (RSAPublicKey (Public demo_key)) = Inr [5]"
  "sha1_Write demo_env [5] = None"
  "demo_tmpl = caTemplate (currentSerialNumber fresh_world + 1) (sha1_Sum demo_env [5])
                 (AddDate demo_env (clock demo_env (ticks fresh_world)) (- 1) 0 0)
                 (AddDate demo_env (clock demo_env (ticks fresh_world + 1)) 1 0 0)"
  "CreateCertificate demo_env (entropy fresh_world + 1) demo_tmpl demo_tmpl
     (RSAPublicKey (Public demo_key)) demo_key = Inr demo_raw"
  "write_fault demo_env (pathOf demo_env caFile) demo_raw = None"
  "MarshalPKCS8PrivateKey demo_env demo_key = Inr [2]"
  "write_fault demo_env (pathOf demo_env caKeyFile) [2] = None"
  "ParseCertificate demo_env demo_raw = Inr demo_cert"
proof -
  have e: "demo_env\<lparr>write_fault := write_fault demo_env\<rparr> = demo_env"
    by simp
  show "loadCA demo_env fresh_world = (fst (loadCA demo_env fresh_world), None)"
    using demo_loadCA_fresh [of "write_fault demo_env"] by (simp add: e prod_eq_iff)
  show "demo_tmpl = caTemplate (currentSerialNumber fresh_world + 1) (sha1_Sum demo_env [5])
                 (AddDate demo_env (clock demo_env (ticks fresh_world)) (- 1) 0 0)
                 (AddDate demo_env (clock demo_env (ticks fresh_world + 1)) 1 0 0)"
    by (simp add: demo_tmpl_def demo_env_def fresh_world_def demo_AddDate)
  show "CreateCertificate demo_env (entropy fresh_world + 1) demo_tmpl demo_tmpl
     (RSAPublicKey (Public demo_key)) demo_key = Inr demo_raw"
    by (simp add: demo_env_def demo_tmpl_def caTemplate_def issued_def asn1_time_def
          demo_cert_def demo_raw_def
          KeyUsageKeyEncipherment_def KeyUsageDigitalSignature_def KeyUsageCertSign_def)
qed (simp_all add: demo_env_def fresh_world_def)

text \<open>
  C7. Let the libraries do what they are assumed to do, and let the load path have
  returned nothing. When the key is generated, the template is signed, both files are
  written and the signed bytes parse, \<open>NewCertificateAuthority\<close> returns the parsed
  certificate with the generated key. And every certificate \<open>c\<close> that it returns with a
  key \<open>k\<close> has its subject as issuer, is a CA with valid basic constraints, has the key
  usages digital signature, key encipherment and certificate signing and no other, the
  one extended key usage server authentication, the DNS names \<open>awesometls\<close> and
  \<open>localhost\<close>, and as public key the public part of \<open>k\<close>, whose modulus has 2048
  bits.
\<close>

theorem generated_certificate_profile:
  assumes "loadCA env w = (wl, None)"
      and "x509_contract env"
      and "rsa_contract env"
  shows "(GenerateKey env (entropy w) 2048 = Inr priv \<longrightarrow>
          MarshalPKIXPublicKey env (RSAPublicKey (Public priv)) = Inr pkixpub \<longrightarrow>
          sha1_Write env pkixpub = None \<longrightarrow>
          CreateCertificate env (entropy w + 1)
            (caTemplate (currentSerialNumber w + 1) (sha1_Sum env pkixpub)
               (AddDate env (clock env (ticks w)) (- 1) 0 0)
               (AddDate env (clock env (ticks w + 1)) 1 0 0))
            (caTemplate (currentSerialNumber w + 1) (sha1_Sum env pkixpub)
               (AddDate env (clock env (ticks w)) (- 1) 0 0)
               (AddDate env (clock env (ticks w + 1)) 1 0 0))
            (RSAPublicKey (Public priv)) priv = Inr raw \<longrightarrow>
          write_fault env (pathOf env caFile) raw = None \<longrightarrow>
          MarshalPKCS8PrivateKey env priv = Inr privBytes \<longrightarrow>
          write_fault env (pathOf env caKeyFile) privBytes = None \<longrightarrow>
          ParseCertificate env raw = Inr cert \<longrightarrow>
            snd (NewCertificateAuthority env w) = Inr (cert, priv))
         \<and> (snd (NewCertificateAuthority env w) = Inr (c, k) \<longrightarrow>
              Issuer c = Subject c
              \<and> IsCA c
              \<and> BasicConstraintsValid c
              \<and> KeyUsage c = KeyUsageKeyEncipherment OR KeyUsageDigitalSignature OR KeyUsageCertSign
              \<and> usages (KeyUsage c) =
                  [KeyUsageDigitalSignature, KeyUsageKeyEncipherment, KeyUsageCertSign]
              \<and> ExtKeyUsage c = [ExtKeyUsageServerAuth]
              \<and> DNSNames c = [''awesometls'', ''localhost'']
              \<and> PublicKey c = Some (RSAPublicKey (Public k))
              \<and> 2 ^ 2047 \<le> rsaN (Public k) \<and> rsaN (Public k) < 2 ^ 2048)"
proof (intro conjI impI)
  assume "GenerateKey env (entropy w) 2048 = Inr priv"
     and "MarshalPKIXPublicKey env (RSAPublicKey (Public priv)) = Inr pkixpub"
     and "sha1_Write env pkixpub = None"
     and "CreateCertificate env (entropy w + 1)
            (caTemplate (currentSerialNumber w + 1) (sha1_Sum env pkixpub)
               (AddDate env (clock env (ticks w)) (- 1) 0 0)
               (AddDate env (clock env (ticks w + 1)) 1 0 0))
            (caTemplate (currentSerialNumber w + 1) (sha1_Sum env pkixpub)
               (AddDate env (clock env (ticks w)) (- 1) 0 0)
               (AddDate env (clock env (ticks w + 1)) 1 0 0))
            (RSAPublicKey (Public priv)) priv = Inr raw"
     and "write_fault env (pathOf env caFile) raw = None"
     and "MarshalPKCS8PrivateKey env priv = Inr privBytes"
     and "write_fault env (pathOf env caKeyFile) privBytes = None"
     and "ParseCertificate env raw = Inr cert"
  then show "snd (NewCertificateAuthority env w) = Inr (cert, priv)"
    by (intro NewCertificateAuthority_succeeds [OF assms(1) _ _ _ refl])
next
  assume "snd (NewCertificateAuthority env w) = Inr (c, k)"
  then have r: "NewCertificateAuthority env w = (fst (NewCertificateAuthority env w), Inr (c, k))"
    by (simp add: prod_eq_iff)
  from generated_pair [OF assms(1) r] obtain pkixpub' raw' tmpl' where
    g: "GenerateKey env (entropy w) 2048 = Inr k" and
    t: "tmpl' = caTemplate (currentSerialNumber w + 1) (sha1_Sum env pkixpub')
                  (AddDate env (clock env (ticks w)) (- 1) 0 0)
                  (AddDate env (clock env (ticks w + 1)) 1 0 0)" and
    cr: "CreateCertificate env (entropy w + 1) tmpl' tmpl' (RSAPublicKey (Public k)) k = Inr raw'" and
    p: "ParseCertificate env raw' = Inr c"
    by blast
  from assms(2) cr p have "c = issued tmpl' tmpl' (RSAPublicKey (Public k)) raw'"
    unfolding x509_contract_def by blast
  then have fields:
    "Issuer c = Subject c" "IsCA c" "BasicConstraintsValid c"
    "KeyUsage c = KeyUsageKeyEncipherment OR KeyUsageDigitalSignature OR KeyUsageCertSign"
    "ExtKeyUsage c = [ExtKeyUsageServerAuth]"
    "DNSNames c = [''awesometls'', ''localhost'']"
    "PublicKey c = Some (RSAPublicKey (Public k))"
    by (simp_all add: issued_def t caTemplate_def)
  from assms(3) g have "2 ^ (2048 - 1) \<le> rsaN (Public k) \<and> rsaN (Public k) < 2 ^ 2048"
    unfolding rsa_contract_def by blast
  then have size: "2 ^ 2047 \<le> rsaN (Public k)" "rsaN (Public k) < 2 ^ 2048"
    by simp_all
  from fields size show "Issuer c = Subject c" "IsCA c" "BasicConstraintsValid c"
    "KeyUsage c = KeyUsageKeyEncipherment OR KeyUsageDigitalSignature OR KeyUsageCertSign"
    "usages (KeyUsage c) = [KeyUsageDigitalSignature, KeyUsageKeyEncipherment, KeyUsageCertSign]"
    "ExtKeyUsage c = [ExtKeyUsageServerAuth]"
    "DNSNames c = [''awesometls'', ''localhost'']"
    "PublicKey c = Some (RSAPublicKey (Public k))"
    "2 ^ 2047 \<le> rsaN (Public k)" "rsaN (Public k) < 2 ^ 2048"
    by (simp_all only: usages_ca)
qed

theorem generated_certificate_profile_witness:
  "snd (NewCertificateAuthority demo_env fresh_world) = Inr (demo_cert, demo_key)
   \<and> Issuer demo_cert = Subject demo_cert
   \<and> IsCA demo_cert
   \<and> BasicConstraintsValid demo_cert
   \<and> KeyUsage demo_cert = KeyUsageKeyEncipherment OR KeyUsageDigitalSignature OR KeyUsageCertSign
   \<and> usages (KeyUsage demo_cert) =
       [KeyUsageDigitalSignature, KeyUsageKeyEncipherment, KeyUsageCertSign]
   \<and> ExtKeyUsage demo_cert = [ExtKeyUsageServerAuth]
   \<and> DNSNames demo_cert = [''awesometls'', ''localhost'']
   \<and> PublicKey demo_cert = Some (RSAPublicKey (Public demo_key))
   \<and> 2 ^ 2047 \<le> rsaN (Public demo_key) \<and> rsaN (Public demo_key) < 2 ^ 2048"
proof -
  note t = generated_certificate_profile
    [OF demo_steps(1) demo_x509_contract demo_rsa_contract,
     of demo_key "[5]" demo_raw "[2]" demo_cert demo_cert demo_key]
  from t [THEN conjunct1, rule_format, OF demo_steps(2,3,4) demo_steps(6) [unfolded demo_steps(5)]
            demo_steps(7-10)]
  have r: "snd (NewCertificateAuthority demo_env fresh_world) = Inr (demo_cert, demo_key)" .
  from t [THEN conjunct2, rule_format, OF r] r show ?thesis
    by blast
qed

text \<open>
  C6. Let \<open>x509\<close> do what it is assumed to do, and let the load path have returned
  nothing. The generate path reads the clock twice, at lines 121 and 122. When its
  steps succeed \<open>NewCertificateAuthority\<close> returns the certificate, and every
  certificate that it returns is valid from the first reading moved back one year and
  until the second reading moved forward one year, each cut to the whole second: less
  than a second below the instant that \<open>AddDate\<close> gives.
\<close>

theorem generated_certificate_validity:
  assumes "loadCA env w = (wl, None)"
      and "x509_contract env"
  shows "(GenerateKey env (entropy w) 2048 = Inr priv \<longrightarrow>
          MarshalPKIXPublicKey env (RSAPublicKey (Public priv)) = Inr pkixpub \<longrightarrow>
          sha1_Write env pkixpub = None \<longrightarrow>
          CreateCertificate env (entropy w + 1)
            (caTemplate (currentSerialNumber w + 1) (sha1_Sum env pkixpub)
               (AddDate env (clock env (ticks w)) (- 1) 0 0)
               (AddDate env (clock env (ticks w + 1)) 1 0 0))
            (caTemplate (currentSerialNumber w + 1) (sha1_Sum env pkixpub)
               (AddDate env (clock env (ticks w)) (- 1) 0 0)
               (AddDate env (clock env (ticks w + 1)) 1 0 0))
            (RSAPublicKey (Public priv)) priv = Inr raw \<longrightarrow>
          write_fault env (pathOf env caFile) raw = None \<longrightarrow>
          MarshalPKCS8PrivateKey env priv = Inr privBytes \<longrightarrow>
          write_fault env (pathOf env caKeyFile) privBytes = None \<longrightarrow>
          ParseCertificate env raw = Inr cert \<longrightarrow>
            snd (NewCertificateAuthority env w) = Inr (cert, priv))
         \<and> (snd (NewCertificateAuthority env w) = Inr (c, k) \<longrightarrow>
              NotBefore c = asn1_time (AddDate env (clock env (ticks w)) (- 1) 0 0)
              \<and> NotAfter c = asn1_time (AddDate env (clock env (ticks w + 1)) 1 0 0)
              \<and> NotBefore c \<le> AddDate env (clock env (ticks w)) (- 1) 0 0
              \<and> AddDate env (clock env (ticks w)) (- 1) 0 0 - NotBefore c < 1000000000
              \<and> NotAfter c \<le> AddDate env (clock env (ticks w + 1)) 1 0 0
              \<and> AddDate env (clock env (ticks w + 1)) 1 0 0 - NotAfter c < 1000000000)"
proof (intro conjI impI)
  assume "GenerateKey env (entropy w) 2048 = Inr priv"
     and "MarshalPKIXPublicKey env (RSAPublicKey (Public priv)) = Inr pkixpub"
     and "sha1_Write env pkixpub = None"
     and "CreateCertificate env (entropy w + 1)
            (caTemplate (currentSerialNumber w + 1) (sha1_Sum env pkixpub)
               (AddDate env (clock env (ticks w)) (- 1) 0 0)
               (AddDate env (clock env (ticks w + 1)) 1 0 0))
            (caTemplate (currentSerialNumber w + 1) (sha1_Sum env pkixpub)
               (AddDate env (clock env (ticks w)) (- 1) 0 0)
               (AddDate env (clock env (ticks w + 1)) 1 0 0))
            (RSAPublicKey (Public priv)) priv = Inr raw"
     and "write_fault env (pathOf env caFile) raw = None"
     and "MarshalPKCS8PrivateKey env priv = Inr privBytes"
     and "write_fault env (pathOf env caKeyFile) privBytes = None"
     and "ParseCertificate env raw = Inr cert"
  then show "snd (NewCertificateAuthority env w) = Inr (cert, priv)"
    by (intro NewCertificateAuthority_succeeds [OF assms(1) _ _ _ refl])
next
  assume "snd (NewCertificateAuthority env w) = Inr (c, k)"
  then have r: "NewCertificateAuthority env w = (fst (NewCertificateAuthority env w), Inr (c, k))"
    by (simp add: prod_eq_iff)
  from generated_pair [OF assms(1) r] obtain pkixpub' raw' tmpl' where
    t: "tmpl' = caTemplate (currentSerialNumber w + 1) (sha1_Sum env pkixpub')
                  (AddDate env (clock env (ticks w)) (- 1) 0 0)
                  (AddDate env (clock env (ticks w + 1)) 1 0 0)" and
    cr: "CreateCertificate env (entropy w + 1) tmpl' tmpl' (RSAPublicKey (Public k)) k = Inr raw'" and
    p: "ParseCertificate env raw' = Inr c"
    by blast
  from assms(2) cr p have "c = issued tmpl' tmpl' (RSAPublicKey (Public k)) raw'"
    unfolding x509_contract_def by blast
  then have v: "NotBefore c = asn1_time (AddDate env (clock env (ticks w)) (- 1) 0 0)"
               "NotAfter c = asn1_time (AddDate env (clock env (ticks w + 1)) 1 0 0)"
    by (simp_all add: issued_def t caTemplate_def)
  then show "NotBefore c = asn1_time (AddDate env (clock env (ticks w)) (- 1) 0 0)"
            "NotAfter c = asn1_time (AddDate env (clock env (ticks w + 1)) 1 0 0)"
            "NotBefore c \<le> AddDate env (clock env (ticks w)) (- 1) 0 0"
            "AddDate env (clock env (ticks w)) (- 1) 0 0 - NotBefore c < 1000000000"
            "NotAfter c \<le> AddDate env (clock env (ticks w + 1)) 1 0 0"
            "AddDate env (clock env (ticks w + 1)) 1 0 0 - NotAfter c < 1000000000"
    by (simp_all add: asn1_time_def)
qed

theorem generated_certificate_validity_witness:
  "snd (NewCertificateAuthority demo_env fresh_world) = Inr (demo_cert, demo_key)
   \<and> clock demo_env (ticks fresh_world) = 1700000000500000000
   \<and> clock demo_env (ticks fresh_world + 1) = 1700000000500000001
   \<and> AddDate demo_env 1700000000500000000 (- 1) 0 0 = 1668464000500000000
   \<and> AddDate demo_env 1700000000500000001 1 0 0 = 1731622400500000001
   \<and> NotBefore demo_cert = 1668464000000000000
   \<and> NotAfter demo_cert = 1731622400000000000"
proof -
  have c: "clock demo_env (ticks fresh_world) = 1700000000500000000"
          "clock demo_env (ticks fresh_world + 1) = 1700000000500000001"
    by (simp_all add: demo_env_def fresh_world_def)
  have c': "clock demo_env (Suc (ticks fresh_world)) = 1700000000500000001"
    using c(2) by simp
  have a: "AddDate demo_env 1700000000500000000 (- 1) 0 0 = 1668464000500000000"
          "AddDate demo_env 1700000000500000001 1 0 0 = 1731622400500000001"
    by (simp_all add: demo_env_def demo_AddDate)
  note t = generated_certificate_validity
    [OF demo_steps(1) demo_x509_contract,
     of demo_key "[5]" demo_raw "[2]" demo_cert demo_cert demo_key]
  from t [THEN conjunct1, rule_format, OF demo_steps(2,3,4) demo_steps(6) [unfolded demo_steps(5)]
            demo_steps(7-10)]
  have r: "snd (NewCertificateAuthority demo_env fresh_world) = Inr (demo_cert, demo_key)" .
  from t [THEN conjunct2, rule_format, OF r] r show ?thesis
    by (simp add: c c' a asn1_time_def)
qed

section \<open>Serial numbers\<close>

lemma allocSerials_length: "length (allocSerials ts c) = length ts"
  by (induction ts arbitrary: c) (simp_all add: atomic_AddInt64_def)

lemma allocSerials_values:
  "map snd (allocSerials ts c) = map (\<lambda>i. c + of_nat (Suc i)) [0..<length ts]"
proof (induction ts arbitrary: c)
  case Nil
  then show ?case by simp
next
  case (Cons t ts)
  have "map (\<lambda>i. c + of_nat (Suc i)) [0..<Suc (length ts)] =
        (c + 1) # map (\<lambda>i. (c + 1) + of_nat (Suc i)) [0..<length ts]"
    by (simp add: upt_conv_Cons map_Suc_upt [symmetric] del: upt_Suc add: ac_simps)
  with Cons show ?case
    by (simp add: atomic_AddInt64_def del: upt_Suc)
qed

lemma word64_of_nat_inj:
  assumes "(of_nat i :: 64 word) = of_nat j" and "i < 2 ^ 64" and "j < 2 ^ 64"
  shows "i = j"
  using assms by (simp add: word_of_nat_eq_iff take_bit_nat_eq_self)

lemma allocSerials_distinct:
  assumes "length ts \<le> 2 ^ 64"
  shows "distinct (map snd (allocSerials ts c))"
proof -
  have "inj_on (\<lambda>i. c + (of_nat (Suc i) :: 64 word)) {0..<length ts}"
  proof (rule inj_onI)
    fix i j
    assume i: "i \<in> {0..<length ts}" and j: "j \<in> {0..<length ts}"
       and eq: "c + (of_nat (Suc i) :: 64 word) = c + of_nat (Suc j)"
    from eq have "(of_nat i :: 64 word) = of_nat j" by simp
    moreover from i j assms have "i < 2 ^ 64" "j < 2 ^ 64" by simp_all
    ultimately show "i = j" by (rule word64_of_nat_inj)
  qed
  then show ?thesis
    by (simp add: allocSerials_values distinct_map)
qed

lemma sint_succ:
  assumes "sint (c :: 64 word) < 2 ^ 63 - 1"
  shows "sint (c + 1) = sint c + 1"
proof -
  have lo: "- (2 ^ 63) \<le> sint c"
    using sint_ge [of c] by simp
  have "sint (c + 1) = signed_take_bit 63 (sint c + 1)"
    by (simp add: sint_word_ariths)
  also have "\<dots> = sint c + 1"
    using lo assms by (intro signed_take_bit_int_eq_self) simp_all
  finally show ?thesis .
qed

lemma allocSerials_increasing:
  assumes "sint c + int (length ts) < 2 ^ 63"
  shows "sorted_wrt (<) (map (sint \<circ> snd) (allocSerials ts c))
         \<and> (\<forall>v \<in> set (map snd (allocSerials ts c)). sint c < sint v)"
  using assms
proof (induction ts arbitrary: c)
  case Nil
  then show ?case by simp
next
  case (Cons t ts)
  from Cons.prems have s: "sint (c + 1) = sint c + 1"
    by (intro sint_succ) simp
  with Cons.prems have "sint (c + 1) + int (length ts) < 2 ^ 63"
    by simp
  from Cons.IH [OF this] s show ?case
    by (auto simp: atomic_AddInt64_def)
qed

text \<open>
  The seed of line 28 for a clock that shows an instant of the \<open>int64\<close> nanosecond
  range: the seconds of that instant, below \<open>2 ^ 34\<close>.
\<close>

lemma initialSerialNumber_sint:
  assumes "0 \<le> now" and "now < 2 ^ 63"
  shows "sint (initialSerialNumber now) = now div 1000000000"
    and "0 \<le> sint (initialSerialNumber now)"
    and "sint (initialSerialNumber now) < 2 ^ 34"
proof -
  have lo: "0 \<le> now div 1000000000"
    using assms(1) by (simp add: pos_imp_zdiv_nonneg_iff)
  have "now div 1000000000 \<le> (2 ^ 63 - 1) div 1000000000"
    using assms(2) by (intro zdiv_mono1) simp_all
  then have hi: "now div 1000000000 < 2 ^ 34"
    by simp
  have "sint (initialSerialNumber now) = signed_take_bit 63 (now div 1000000000)"
    by (simp add: initialSerialNumber_def sint_sbintrunc')
  also have "\<dots> = now div 1000000000"
    using lo hi by (intro signed_take_bit_int_eq_self) simp_all
  finally show s: "sint (initialSerialNumber now) = now div 1000000000" .
  from lo hi s show "0 \<le> sint (initialSerialNumber now)" "sint (initialSerialNumber now) < 2 ^ 34"
    by simp_all
qed

text \<open>
  C5. A process seeds the counter at line 28 from a clock that shows an instant of the
  \<open>int64\<close> nanosecond range, and then allocates, at line 109, once for each
  certificate it generates; \<open>sched\<close> is the history of its allocations, the goroutines
  in the order in which their atomic additions took effect, fewer than \<open>2 ^ 62\<close> of
  them. The values allocated are pairwise different, whichever goroutines ran
  concurrently; each is greater than the seed and than every value allocated before it;
  and the allocation inside \<open>createCA\<close> is one such step, whose value is the serial
  number of the template.
\<close>

theorem serial_allocation:
  assumes "0 \<le> now" and "now < 2 ^ 63"
      and "length sched < 2 ^ 62"
  shows "distinct (map snd (allocSerials sched (initialSerialNumber now)))
         \<and> sorted_wrt (<) (map (sint \<circ> snd) (allocSerials sched (initialSerialNumber now)))
         \<and> (\<forall>v \<in> set (map snd (allocSerials sched (initialSerialNumber now))).
               sint (initialSerialNumber now) < sint v)
         \<and> (createCA env w = (w', Inr (tmpl, raw, priv)) \<longrightarrow>
              allocSerials [t] (currentSerialNumber w) = [(t, currentSerialNumber w')]
              \<and> SerialNumber tmpl = sint (currentSerialNumber w'))"
proof -
  have "length sched \<le> 2 ^ 64"
    using assms(3) by simp
  then have d: "distinct (map snd (allocSerials sched (initialSerialNumber now)))"
    by (rule allocSerials_distinct)
  have "int (length sched) < 2 ^ 62"
    using assms(3) by simp
  with initialSerialNumber_sint(3) [OF assms(1,2)]
  have "sint (initialSerialNumber now) + int (length sched) < 2 ^ 63"
    by simp
  note i = allocSerials_increasing [OF this]
  have c: "createCA env w = (w', Inr (tmpl, raw, priv)) \<Longrightarrow>
        allocSerials [t] (currentSerialNumber w) = [(t, currentSerialNumber w')]
        \<and> SerialNumber tmpl = sint (currentSerialNumber w')"
    by (auto simp: createCA_def Let_def atomic_AddInt64_def caTemplate_def
          split: sum.splits option.splits)
  from d i c show ?thesis
    by blast
qed


theorem serial_allocation_witness:
  "initialSerialNumber 1700000000500000000 = 1700000000
   \<and> map (sint \<circ> snd) (allocSerials [0, 1, 0] (initialSerialNumber 1700000000500000000)) =
       [1700000001, 1700000002, 1700000003]
   \<and> distinct (map snd (allocSerials [0, 1, 0] (initialSerialNumber 1700000000500000000)))
   \<and> sorted_wrt (<)
        (map (sint \<circ> snd) (allocSerials [0, 1, 0] (initialSerialNumber 1700000000500000000)))
   \<and> createCA demo_env fresh_world =
       (fst (createCA demo_env fresh_world), Inr (demo_tmpl, demo_raw, demo_key))
   \<and> SerialNumber demo_tmpl = 1700000001
   \<and> sint (currentSerialNumber (fst (createCA demo_env fresh_world))) = 1700000001"
proof -
  have a: "(0::int) \<le> 1700000000500000000" "(1700000000500000000::int) < 2 ^ 63"
          "length [0, 1, 0 :: nat] < 2 ^ 62"
    by simp_all
  have i: "initialSerialNumber 1700000000500000000 = 1700000000"
    by (simp add: initialSerialNumber_def)
  have v: "map (sint \<circ> snd) (allocSerials [0, 1, 0] 1700000000) =
             [1700000001, 1700000002, 1700000003]"
    by (simp add: atomic_AddInt64_def)
  have e: "demo_env\<lparr>write_fault := write_fault demo_env\<rparr> = demo_env"
    by simp
  have "snd (createCA demo_env fresh_world) = Inr (demo_tmpl, demo_raw, demo_key)"
    using demo_createCA [of fresh_world "write_fault demo_env"]
    by (simp add: e fresh_world_def)
  then have c: "createCA demo_env fresh_world =
       (fst (createCA demo_env fresh_world), Inr (demo_tmpl, demo_raw, demo_key))"
    by (simp add: prod_eq_iff)
  have s: "SerialNumber demo_tmpl = 1700000001"
    by (simp add: demo_tmpl_def caTemplate_def)
  from serial_allocation [OF a, of demo_env fresh_world
         "fst (createCA demo_env fresh_world)" demo_tmpl demo_raw demo_key 0]
       c v s i
  show ?thesis
    by simp
qed

text \<open>
  The bound on the history is what keeps the counter below \<open>2 ^ 63\<close>: at the top of
  the \<open>int64\<close> range the addition wraps around.
\<close>

lemma allocSerials_at_top:
  "map (sint \<circ> snd) (allocSerials [0, 1] 0x7FFFFFFFFFFFFFFE) =
     [9223372036854775807, - 9223372036854775808]"
  by (simp add: atomic_AddInt64_def)

end
